theory Spec2Isabelle
  imports Main "HOL-Library.Word"
begin

unbundle bit_operations_syntax

section \<open>The NCT7904D hardware-monitoring driver (drivers/hwmon/nct7904.c)\<close>

text \<open>
  The driver talks to the chip through two SMBus primitives and keeps a small device
  handle. The embedding below follows the C source function by function:
  \<^item> \<open>u8\<close> and \<open>u32\<close> objects are words of that width, \<open>unsigned int\<close> arguments are
    32-bit words; the C \<open>int\<close> results (a negative errno, a byte or a 16-bit composite)
    and the \<open>long\<close> values handed to the monitoring framework are \<open>int\<close>, every
    value of the code staying far inside the machine range;
  \<^item> the handle is a record that is passed in and returned;
  \<^item> an out-of-bounds array read and a division by zero, which are undefined in C,
    are explicit faults of the model.
\<close>

type_synonym u8 = "8 word"
type_synonym u32 = "32 word"

subsection \<open>Constants (lines 19-59)\<close>

definition BANK_SEL_REG :: u8 where "BANK_SEL_REG = 0xFF"
definition BANK_0 :: u32 where "BANK_0 = 0x00"
definition BANK_1 :: u32 where "BANK_1 = 0x01"
definition BANK_2 :: u32 where "BANK_2 = 0x02"
definition BANK_3 :: u32 where "BANK_3 = 0x03"
definition BANK_4 :: u32 where "BANK_4 = 0x04"
definition BANK_MAX :: u32 where "BANK_MAX = 0x04"

definition FANCTL_MAX :: nat where "FANCTL_MAX = 4"

definition VT_ADC_CTRL0_REG :: int where "VT_ADC_CTRL0_REG = 0x20"
definition VT_ADC_CTRL1_REG :: int where "VT_ADC_CTRL1_REG = 0x21"
definition VT_ADC_CTRL2_REG :: int where "VT_ADC_CTRL2_REG = 0x22"
definition FANIN_CTRL0_REG :: int where "FANIN_CTRL0_REG = 0x24"
definition FANIN_CTRL1_REG :: int where "FANIN_CTRL1_REG = 0x25"
definition DTS_T_CTRL0_REG :: int where "DTS_T_CTRL0_REG = 0x26"
definition DTS_T_CTRL1_REG :: int where "DTS_T_CTRL1_REG = 0x27"
definition VT_ADC_MD_REG :: int where "VT_ADC_MD_REG = 0x2E"

definition VSEN1_HV_REG :: int where "VSEN1_HV_REG = 0x40"
definition TEMP_CH1_HV_REG :: int where "TEMP_CH1_HV_REG = 0x42"
definition LTD_HV_REG :: int where "LTD_HV_REG = 0x62"
definition FANIN1_HV_REG :: int where "FANIN1_HV_REG = 0x80"
definition T_CPU1_HV_REG :: int where "T_CPU1_HV_REG = 0xA0"

definition PFE_REG :: int where "PFE_REG = 0x00"
definition TSI_CTRL_REG :: int where "TSI_CTRL_REG = 0x50"
definition FANCTL1_FMR_REG :: int where "FANCTL1_FMR_REG = 0x00"
definition FANCTL1_OUT_REG :: int where "FANCTL1_OUT_REG = 0x10"

text \<open>The errno values of the kernel that the driver returns negated.\<close>

definition ENOMEM :: int where "ENOMEM = 12"
definition EINVAL :: int where "EINVAL = 22"
definition EOPNOTSUPP :: int where "EOPNOTSUPP = 95"

subsection \<open>The bus and the device handle (lines 65-75)\<close>

text \<open>
  A bus transaction is a byte read of a register or a byte write to one. The trace
  records, in order, every acquisition and release of \<open>bank_lock\<close> and every bus
  transaction together with the value the transport returned for it.
\<close>

datatype xfer = Rd u8 | Wr u8 u8

datatype event = Lock | Unlock | Xfer xfer int

text \<open>
  \<open>struct nct7904_data\<close>. The field \<open>client\<close> stands for the I2C client behind the
  handle: the answer of the transport to a transaction, which may depend on everything
  that happened before (so a chip with banked registers, a bus that fails at the
  n-th transaction and so on are all instances). \<open>bank_sel\<close> is the C \<open>int\<close> kept as
  its 32-bit pattern, since the code compares it with an \<open>unsigned int\<close>; the value
  \<open>-1\<close> says that the selected bank is unknown. The mutex \<open>bank_lock\<close> is represented
  by the \<open>Lock\<close> and \<open>Unlock\<close> events of \<open>trace\<close>.
\<close>

record nct7904_data =
  client :: "event list \<Rightarrow> xfer \<Rightarrow> int"
  trace :: "event list"
  bank_sel :: u32
  fanin_mask :: u32
  vsen_mask :: u32
  tcpu_mask :: u32
  fan_mode :: "nat \<Rightarrow> u8"
  enable_dts :: u8
  has_dts :: u8

text \<open>
  Modelled from the spec: the transport primitives \<open>i2c_smbus_read_byte_data\<close> and
  \<open>i2c_smbus_write_byte_data\<close> are not part of the sources. They are blocking
  single-byte transactions addressed by an 8-bit register number; a read returns a
  negative errno or the data byte, a write returns a negative errno or zero.
\<close>

definition i2c_smbus_read_byte_data :: "nct7904_data \<Rightarrow> u8 \<Rightarrow> int \<times> nct7904_data" where
  "i2c_smbus_read_byte_data d command =
     (let r = client d (trace d) (Rd command);
          ret = (if r < 0 then r else r mod 256)
      in (ret, d\<lparr>trace := trace d @ [Xfer (Rd command) ret]\<rparr>))"

definition i2c_smbus_write_byte_data :: "nct7904_data \<Rightarrow> u8 \<Rightarrow> u8 \<Rightarrow> int \<times> nct7904_data" where
  "i2c_smbus_write_byte_data d command val =
     (let r = client d (trace d) (Wr command val);
          ret = (if r < 0 then r else 0)
      in (ret, d\<lparr>trace := trace d @ [Xfer (Wr command val) ret]\<rparr>))"

definition mutex_lock :: "nct7904_data \<Rightarrow> nct7904_data" where
  "mutex_lock d = d\<lparr>trace := trace d @ [Lock]\<rparr>"

definition mutex_unlock :: "nct7904_data \<Rightarrow> nct7904_data" where
  "mutex_unlock d = d\<lparr>trace := trace d @ [Unlock]\<rparr>"

subsection \<open>Access functions (lines 77-151)\<close>

definition nct7904_bank_lock :: "nct7904_data \<Rightarrow> u32 \<Rightarrow> int \<times> nct7904_data" where
  "nct7904_bank_lock d0 bank =
     (let d = mutex_lock d0 in
      if bank_sel d = bank then (0, d)
      else
        (case i2c_smbus_write_byte_data d BANK_SEL_REG (ucast bank) of
           (ret, d') \<Rightarrow>
             if ret = 0 then (ret, d'\<lparr>bank_sel := bank\<rparr>)
             else (ret, d'\<lparr>bank_sel := - 1\<rparr>)))"

definition nct7904_bank_release :: "nct7904_data \<Rightarrow> nct7904_data" where
  "nct7904_bank_release d = mutex_unlock d"

text \<open>Read 1-byte register. Returns unsigned reg or -ERRNO on error.\<close>

definition nct7904_read_reg :: "nct7904_data \<Rightarrow> u32 \<Rightarrow> u32 \<Rightarrow> int \<times> nct7904_data" where
  "nct7904_read_reg d0 bank reg =
     (case nct7904_bank_lock d0 bank of
        (ret, d) \<Rightarrow>
          (case (if ret = 0 then i2c_smbus_read_byte_data d (ucast reg) else (ret, d)) of
             (ret, d) \<Rightarrow> (ret, nct7904_bank_release d)))"

text \<open>Read 2-byte register. Returns register in big-endian format or -ERRNO on error.\<close>

definition nct7904_read_reg16 :: "nct7904_data \<Rightarrow> u32 \<Rightarrow> u32 \<Rightarrow> int \<times> nct7904_data" where
  "nct7904_read_reg16 d0 bank reg =
     (case nct7904_bank_lock d0 bank of
        (ret, d) \<Rightarrow>
          (case
             (if ret = 0 then
                (case i2c_smbus_read_byte_data d (ucast reg) of
                   (ret, d) \<Rightarrow>
                     if ret \<ge> 0 then
                       (let hi = ret in
                        case i2c_smbus_read_byte_data d (ucast (reg + 1)) of
                          (ret, d) \<Rightarrow>
                            if ret \<ge> 0 then (ret OR push_bit 8 hi, d) else (ret, d))
                     else (ret, d))
              else (ret, d))
           of (ret, d) \<Rightarrow> (ret, nct7904_bank_release d)))"

text \<open>Write 1-byte register. Returns 0 or -ERRNO on error.\<close>

definition nct7904_write_reg :: "nct7904_data \<Rightarrow> u32 \<Rightarrow> u32 \<Rightarrow> u8 \<Rightarrow> int \<times> nct7904_data" where
  "nct7904_write_reg d0 bank reg val =
     (case nct7904_bank_lock d0 bank of
        (ret, d) \<Rightarrow>
          (case (if ret = 0 then i2c_smbus_write_byte_data d (ucast reg) val else (ret, d)) of
             (ret, d) \<Rightarrow> (ret, nct7904_bank_release d)))"

subsection \<open>Faults\<close>

text \<open>
  What C leaves undefined and the model makes a result: reading an array outside its
  bounds, and the unsigned division by zero (a divide error trap in the kernel).
\<close>

datatype fault = OutOfBounds | DivideError

subsection \<open>The voltage channel table (lines 187-191)\<close>

definition nct7904_chan_to_index :: "u8 list" where
  "nct7904_chan_to_index =
     [0,
      0, 1, 2, 3, 4, 5, 6, 7, 8, 9, 10, 11, 12, 13, 14, 15,
      18, 19, 20, 16]"

text \<open>The array read \<open>nct7904_chan_to_index[channel]\<close>, with \<open>int channel\<close>.\<close>

definition chan_to_index :: "int \<Rightarrow> fault + int" where
  "chan_to_index channel =
     (if 0 \<le> channel \<and> channel < int (length nct7904_chan_to_index)
      then Inr (uint (nct7904_chan_to_index ! nat channel))
      else Inl OutOfBounds)"

subsection \<open>Attributes of the monitoring framework\<close>

text \<open>
  Modelled from the spec: the attribute enumerations of the host monitoring framework
  (linux/hwmon.h) are not part of the sources. Each sensor type gets the attributes the
  driver names; every other attribute of that type is the last constructor.
\<close>

datatype hwmon_fan_attributes = hwmon_fan_input | hwmon_fan_other nat
datatype hwmon_in_attributes = hwmon_in_input | hwmon_in_other nat
datatype hwmon_temp_attributes = hwmon_temp_input | hwmon_temp_other nat
datatype hwmon_pwm_attributes = hwmon_pwm_input | hwmon_pwm_enable | hwmon_pwm_other nat

subsection \<open>Fan inputs (lines 153-185)\<close>

text \<open>Line 166: the 13-bit count of a fan reading.\<close>

definition fan_cnt :: "int \<Rightarrow> int" where
  "fan_cnt ret = drop_bit 3 (ret AND 0xff00) OR (ret AND 0x1f)"

text \<open>
  The sensor reads take the current content of \<open>*val\<close> and return the C result, the
  new content of \<open>*val\<close> and the handle.
\<close>

definition nct7904_read_fan ::
  "nct7904_data \<Rightarrow> hwmon_fan_attributes \<Rightarrow> int \<Rightarrow> int \<Rightarrow> fault + (int \<times> int \<times> nct7904_data)" where
  "nct7904_read_fan d0 attr channel val =
     (case attr of
        hwmon_fan_input \<Rightarrow>
          (case nct7904_read_reg16 d0 BANK_0 (word_of_int (FANIN1_HV_REG + channel * 2)) of
             (ret, d) \<Rightarrow>
               if ret < 0 then Inr (ret, val, d)
               else
                 (let cnt = fan_cnt ret in
                  if cnt = 0x1fff then Inr (0, 0, d)
                  else if cnt = 0 then Inl DivideError
                  else Inr (0, 1350000 div cnt, d)))
      | hwmon_fan_other _ \<Rightarrow> Inr (- EOPNOTSUPP, val, d0))"

text \<open>File modes are written in decimal: \<open>0444\<close> is 292 and \<open>0644\<close> is 420.\<close>

definition nct7904_fan_is_visible :: "nct7904_data \<Rightarrow> hwmon_fan_attributes \<Rightarrow> int \<Rightarrow> nat" where
  "nct7904_fan_is_visible d attr channel =
     (if attr = hwmon_fan_input \<and> fanin_mask d AND push_bit (nat channel) 1 \<noteq> 0
      then 292 else 0)"

subsection \<open>Voltage inputs (lines 193-229)\<close>

text \<open>Line 207: the 11-bit magnitude of a voltage or temperature reading.\<close>

definition in_volt :: "int \<Rightarrow> int" where
  "in_volt ret = drop_bit 5 (ret AND 0xff00) OR (ret AND 0x7)"

definition nct7904_read_in ::
  "nct7904_data \<Rightarrow> hwmon_in_attributes \<Rightarrow> int \<Rightarrow> int \<Rightarrow> fault + (int \<times> int \<times> nct7904_data)" where
  "nct7904_read_in d0 attr channel val =
     (case chan_to_index channel of
        Inl f \<Rightarrow> Inl f
      | Inr index \<Rightarrow>
          (case attr of
             hwmon_in_input \<Rightarrow>
               (case nct7904_read_reg16 d0 BANK_0 (word_of_int (VSEN1_HV_REG + index * 2)) of
                  (ret, d) \<Rightarrow>
                    if ret < 0 then Inr (ret, val, d)
                    else
                      (let volt = in_volt ret;
                           volt = (if index < 14 then volt * 2 else volt * 6)
                       in Inr (0, volt, d)))
           | hwmon_in_other _ \<Rightarrow> Inr (- EOPNOTSUPP, val, d0)))"

definition nct7904_in_is_visible :: "nct7904_data \<Rightarrow> hwmon_in_attributes \<Rightarrow> int \<Rightarrow> fault + nat" where
  "nct7904_in_is_visible d attr channel =
     (case chan_to_index channel of
        Inl f \<Rightarrow> Inl f
      | Inr index \<Rightarrow>
          Inr (if channel > 0 \<and> attr = hwmon_in_input \<and>
                  (ucast (vsen_mask d) :: 64 word) AND push_bit (nat index) 1 \<noteq> 0
               then 292 else 0))"

subsection \<open>Temperature inputs (lines 231-273)\<close>

definition nct7904_read_temp ::
  "nct7904_data \<Rightarrow> hwmon_temp_attributes \<Rightarrow> int \<Rightarrow> int \<Rightarrow> int \<times> int \<times> nct7904_data" where
  "nct7904_read_temp d0 attr channel val =
     (case attr of
        hwmon_temp_input \<Rightarrow>
          (case
             (if channel = 4 then nct7904_read_reg16 d0 BANK_0 (word_of_int LTD_HV_REG)
              else if channel < 5 then
                nct7904_read_reg16 d0 BANK_0 (word_of_int (TEMP_CH1_HV_REG + channel * 4))
              else
                nct7904_read_reg16 d0 BANK_0 (word_of_int (T_CPU1_HV_REG + (channel - 5) * 2)))
           of (ret, d) \<Rightarrow>
             if ret < 0 then (ret, val, d)
             else (0, signed_take_bit 10 (in_volt ret) * 125, d))
      | hwmon_temp_other _ \<Rightarrow> (- EOPNOTSUPP, val, d0))"

definition nct7904_temp_is_visible :: "nct7904_data \<Rightarrow> hwmon_temp_attributes \<Rightarrow> int \<Rightarrow> nat" where
  "nct7904_temp_is_visible d attr channel =
     (if attr = hwmon_temp_input then
        (if channel < 5 then
           (if (ucast (tcpu_mask d) :: 64 word) AND push_bit (nat channel) 1 \<noteq> 0 then 292 else 0)
         else
           (if (ucast (has_dts d) :: 64 word) AND push_bit (nat (channel - 5)) 1 \<noteq> 0 then 292 else 0))
      else 0)"

subsection \<open>Fan control (lines 275-334)\<close>

definition nct7904_read_pwm ::
  "nct7904_data \<Rightarrow> hwmon_pwm_attributes \<Rightarrow> int \<Rightarrow> int \<Rightarrow> int \<times> int \<times> nct7904_data" where
  "nct7904_read_pwm d0 attr channel val =
     (case attr of
        hwmon_pwm_input \<Rightarrow>
          (case nct7904_read_reg d0 BANK_3 (word_of_int (FANCTL1_OUT_REG + channel)) of
             (ret, d) \<Rightarrow> if ret < 0 then (ret, val, d) else (0, ret, d))
      | hwmon_pwm_enable \<Rightarrow>
          (case nct7904_read_reg d0 BANK_3 (word_of_int (FANCTL1_FMR_REG + channel)) of
             (ret, d) \<Rightarrow> if ret < 0 then (ret, val, d) else (0, (if ret \<noteq> 0 then 2 else 1), d))
      | hwmon_pwm_other _ \<Rightarrow> (- EOPNOTSUPP, val, d0))"

text \<open>
  \<open>data->fan_mode[channel]\<close> is read only when \<open>val == 2\<close> (the \<open>&&\<close> of line 315
  does not evaluate it otherwise); the array has \<open>FANCTL_MAX\<close> elements.
\<close>

definition nct7904_write_pwm ::
  "nct7904_data \<Rightarrow> hwmon_pwm_attributes \<Rightarrow> int \<Rightarrow> int \<Rightarrow> fault + (int \<times> nct7904_data)" where
  "nct7904_write_pwm d attr channel val =
     (case attr of
        hwmon_pwm_input \<Rightarrow>
          if val < 0 \<or> val > 255 then Inr (- EINVAL, d)
          else Inr (nct7904_write_reg d BANK_3 (word_of_int (FANCTL1_OUT_REG + channel))
                      (word_of_int val))
      | hwmon_pwm_enable \<Rightarrow>
          if val < 1 \<or> val > 2 then Inr (- EINVAL, d)
          else if val = 2 then
            (if 0 \<le> channel \<and> nat channel < FANCTL_MAX then
               (if fan_mode d (nat channel) = 0 then Inr (- EINVAL, d)
                else Inr (nct7904_write_reg d BANK_3 (word_of_int (FANCTL1_FMR_REG + channel))
                            (fan_mode d (nat channel))))
             else Inl OutOfBounds)
          else Inr (nct7904_write_reg d BANK_3 (word_of_int (FANCTL1_FMR_REG + channel)) 0)
      | hwmon_pwm_other _ \<Rightarrow> Inr (- EOPNOTSUPP, d))"

definition nct7904_pwm_is_visible :: "nct7904_data \<Rightarrow> hwmon_pwm_attributes \<Rightarrow> int \<Rightarrow> nat" where
  "nct7904_pwm_is_visible d attr channel =
     (case attr of
        hwmon_pwm_input \<Rightarrow> 420
      | hwmon_pwm_enable \<Rightarrow> 420
      | hwmon_pwm_other _ \<Rightarrow> 0)"

subsection \<open>Attachment (lines 466-579)\<close>

text \<open>
  \<open>nct7904_probe\<close> is one long function. It is split here at its own comments into
  steps that run one after the other. A step returns \<open>Some e\<close> when the code executes
  \<open>return e\<close> inside it and \<open>None\<close> when control falls through to the next step.
\<close>

text \<open>Lines 486-489, FANIN attributes.\<close>

definition probe_fanin :: "nct7904_data \<Rightarrow> int option \<times> nct7904_data" where
  "probe_fanin d0 =
     (case nct7904_read_reg16 d0 BANK_0 (word_of_int FANIN_CTRL0_REG) of
        (ret, d) \<Rightarrow>
          if ret < 0 then (Some ret, d)
          else (None, d\<lparr>fanin_mask := word_of_int (drop_bit 8 ret OR push_bit 8 (ret AND 0xff))\<rparr>))"

text \<open>Lines 498-505, VSEN attributes: neither result is followed by a \<open>return\<close>.\<close>

definition probe_vsen :: "nct7904_data \<Rightarrow> nct7904_data" where
  "probe_vsen d0 =
     (let mask = (0 :: u32) in
      case nct7904_read_reg16 d0 BANK_0 (word_of_int VT_ADC_CTRL0_REG) of
        (ret, d) \<Rightarrow>
          (let mask = (if ret \<ge> 0 then word_of_int (drop_bit 8 ret OR push_bit 8 (ret AND 0xff))
                       else mask) in
           case nct7904_read_reg d BANK_0 (word_of_int VT_ADC_CTRL2_REG) of
             (ret, d) \<Rightarrow>
               (let mask = (if ret \<ge> 0 then mask OR word_of_int (push_bit 16 ret) else mask)
                in d\<lparr>vsen_mask := mask\<rparr>)))"

text \<open>Lines 508-519, CPU_TEMP attributes.\<close>

definition probe_tcpu :: "nct7904_data \<Rightarrow> int option \<times> nct7904_data" where
  "probe_tcpu d0 =
     (case nct7904_read_reg d0 BANK_0 (word_of_int VT_ADC_CTRL0_REG) of
        (ret, d) \<Rightarrow>
          if ret < 0 then (Some ret, d)
          else
            (let d = (if ret AND 0x6 = 0x6 then d\<lparr>tcpu_mask := tcpu_mask d OR 1\<rparr> else d);
                 d = (if ret AND 0x18 = 0x18 then d\<lparr>tcpu_mask := tcpu_mask d OR 2\<rparr> else d);
                 d = (if ret AND 0x20 = 0x20 then d\<lparr>tcpu_mask := tcpu_mask d OR 4\<rparr> else d);
                 d = (if ret AND 0x80 = 0x80 then d\<lparr>tcpu_mask := tcpu_mask d OR 8\<rparr> else d)
             in (None, d)))"

text \<open>Lines 522-526, LTD.\<close>

definition probe_ltd :: "nct7904_data \<Rightarrow> int option \<times> nct7904_data" where
  "probe_ltd d0 =
     (case nct7904_read_reg d0 BANK_0 (word_of_int VT_ADC_CTRL2_REG) of
        (ret, d) \<Rightarrow>
          if ret < 0 then (Some ret, d)
          else (None, if ret AND 0x02 = 0x02 then d\<lparr>tcpu_mask := tcpu_mask d OR 0x10\<rparr> else d))"

text \<open>
  Lines 533-538: the loop over \<open>i\<close> of the multi-function detection, applied to the
  mask. \<open>val\<close> and \<open>bit\<close> are \<open>u8\<close>; \<open>~bit\<close> is computed after the integer promotion
  and meets the 32-bit mask.
\<close>

function md_loop :: "nat \<Rightarrow> int \<Rightarrow> u32 \<Rightarrow> u32" where
  "md_loop i ret tcpu =
     (if i < 4 then
        (let val = (word_of_int (drop_bit (i * 2) (ret AND push_bit i 0x03)) :: u8);
             bit = (word_of_int (push_bit i 1) :: u8)
         in md_loop (i + 1) ret (if val = 0 then tcpu AND NOT (ucast bit) else tcpu))
      else tcpu)"
  by pat_completeness auto
termination
  by (relation "measure (\<lambda>(i, ret, tcpu). 4 - i)") auto

declare md_loop.simps [simp del]

text \<open>Lines 529-538, Multi-Function detecting for Volt and TR/TD.\<close>

definition probe_md :: "nct7904_data \<Rightarrow> int option \<times> nct7904_data" where
  "probe_md d0 =
     (case nct7904_read_reg d0 BANK_0 (word_of_int VT_ADC_MD_REG) of
        (ret, d) \<Rightarrow>
          if ret < 0 then (Some ret, d)
          else (None, d\<lparr>tcpu_mask := md_loop 0 ret (tcpu_mask d)\<rparr>))"

text \<open>Lines 541-552, PECI.\<close>

definition probe_peci :: "nct7904_data \<Rightarrow> int option \<times> nct7904_data" where
  "probe_peci d0 =
     (case nct7904_read_reg d0 BANK_2 (word_of_int PFE_REG) of
        (ret, d) \<Rightarrow>
          if ret < 0 then (Some ret, d)
          else if ret AND 0x80 \<noteq> 0 then (None, d\<lparr>enable_dts := 1\<rparr>)
          else
            (case nct7904_read_reg d BANK_2 (word_of_int TSI_CTRL_REG) of
               (ret, d) \<Rightarrow>
                 if ret < 0 then (Some ret, d)
                 else (None, if ret AND 0x80 \<noteq> 0 then d\<lparr>enable_dts := 0x3\<rparr> else d)))"

text \<open>Lines 555-566, Check DTS enable status.\<close>

definition probe_dts :: "nct7904_data \<Rightarrow> int option \<times> nct7904_data" where
  "probe_dts d0 =
     (if enable_dts d0 \<noteq> 0 then
        (case nct7904_read_reg d0 BANK_0 (word_of_int DTS_T_CTRL0_REG) of
           (ret, d) \<Rightarrow>
             if ret < 0 then (Some ret, d)
             else
               (let d = d\<lparr>has_dts := word_of_int (ret AND 0xF)\<rparr> in
                if enable_dts d AND 0x2 \<noteq> 0 then
                  (case nct7904_read_reg d BANK_0 (word_of_int DTS_T_CTRL1_REG) of
                     (ret, d) \<Rightarrow>
                       if ret < 0 then (Some ret, d)
                       else (None, d\<lparr>has_dts := has_dts d OR word_of_int (push_bit 4 (ret AND 0xF))\<rparr>))
                else (None, d)))
      else (None, d0))"

text \<open>Lines 568-573, the fan mode of every fan control channel.\<close>

function probe_fan_mode :: "nat \<Rightarrow> nct7904_data \<Rightarrow> int option \<times> nct7904_data" where
  "probe_fan_mode i d0 =
     (if i < FANCTL_MAX then
        (case nct7904_read_reg d0 BANK_3 (word_of_int (FANCTL1_FMR_REG + int i)) of
           (ret, d) \<Rightarrow>
             if ret < 0 then (Some ret, d)
             else probe_fan_mode (i + 1) (d\<lparr>fan_mode := (fan_mode d)(i := word_of_int ret)\<rparr>))
      else (None, d0))"
  by pat_completeness auto
termination
  by (relation "measure (\<lambda>(i, d). FANCTL_MAX - i)") auto

declare probe_fan_mode.simps [simp del]

text \<open>Running one step after another: the first \<open>return\<close> ends the function.\<close>

definition and_then ::
  "(nct7904_data \<Rightarrow> int option \<times> nct7904_data) \<Rightarrow> (nct7904_data \<Rightarrow> int option \<times> nct7904_data)
     \<Rightarrow> nct7904_data \<Rightarrow> int option \<times> nct7904_data" where
  "and_then f g d0 = (case f d0 of (Some e, d) \<Rightarrow> (Some e, d) | (None, d) \<Rightarrow> g d)"

text \<open>Lines 508-573: everything after the VSEN attributes.\<close>

definition probe_rest :: "nct7904_data \<Rightarrow> int option \<times> nct7904_data" where
  "probe_rest =
     and_then probe_tcpu (and_then probe_ltd (and_then probe_md
       (and_then probe_peci (and_then probe_dts (probe_fan_mode 0)))))"

text \<open>Lines 486-573, Setup sensor groups.\<close>

definition probe_setup :: "nct7904_data \<Rightarrow> int option \<times> nct7904_data" where
  "probe_setup = and_then probe_fanin (\<lambda>d. probe_rest (probe_vsen d))"

text \<open>
  Modelled from the spec: \<open>devm_kzalloc\<close> and \<open>devm_hwmon_device_register_with_info\<close>
  are not part of the sources. The allocation fails or gives a zeroed handle; the
  registration gives an error pointer, whose negative errno is \<open>register_ret\<close>, or
  publishes the device with the handle it was given.
\<close>

definition devm_kzalloc :: "nct7904_data" where
  "devm_kzalloc =
     \<lparr>client = (\<lambda>t x. 0), trace = [], bank_sel = 0, fanin_mask = 0, vsen_mask = 0,
      tcpu_mask = 0, fan_mode = (\<lambda>i. 0), enable_dts = 0, has_dts = 0\<rparr>"

text \<open>
  The result is the C return value and the handle that was published to the monitoring
  framework, if one was.
\<close>

definition nct7904_probe ::
  "(event list \<Rightarrow> xfer \<Rightarrow> int) \<Rightarrow> bool \<Rightarrow> int \<Rightarrow> int \<times> nct7904_data option" where
  "nct7904_probe cl alloc_ok register_ret =
     (if \<not> alloc_ok then (- ENOMEM, None)
      else
        (case probe_setup (devm_kzalloc\<lparr>client := cl, bank_sel := - 1\<rparr>) of
           (Some e, d) \<Rightarrow> (e, None)
         | (None, d) \<Rightarrow>
             if register_ret < 0 then (register_ret, None) else (0, Some d)))"

subsection \<open>Sequences of register operations\<close>

text \<open>
  A bank-select transaction is a write to \<open>BANK_SEL_REG\<close>; \<open>bank_selects\<close> counts
  them in a trace.
\<close>

fun is_bank_select :: "event \<Rightarrow> bool" where
  "is_bank_select (Xfer (Wr reg v) r) = (reg = BANK_SEL_REG)"
| "is_bank_select _ = False"

definition bank_selects :: "event list \<Rightarrow> nat" where
  "bank_selects t = length (filter is_bank_select t)"

text \<open>
  The three register operations behind one type, to speak about any two of them in a
  row. An operation that itself writes to \<open>BANK_SEL_REG\<close> is set apart: the driver has
  none.
\<close>

datatype reg_op = ReadReg u32 | ReadReg16 u32 | WriteReg u32 u8

fun do_reg_op :: "nct7904_data \<Rightarrow> u32 \<Rightarrow> reg_op \<Rightarrow> int \<times> nct7904_data" where
  "do_reg_op d bank (ReadReg reg) = nct7904_read_reg d bank reg"
| "do_reg_op d bank (ReadReg16 reg) = nct7904_read_reg16 d bank reg"
| "do_reg_op d bank (WriteReg reg v) = nct7904_write_reg d bank reg v"

fun writes_bank_sel :: "reg_op \<Rightarrow> bool" where
  "writes_bank_sel (WriteReg reg v) = (ucast reg = BANK_SEL_REG)"
| "writes_bank_sel _ = False"

text \<open>The results of the failed bus transactions of a trace, in order.\<close>

fun failures :: "event list \<Rightarrow> int list" where
  "failures [] = []"
| "failures (Xfer x r # t) = (if r < 0 then r # failures t else failures t)"
| "failures (Lock # t) = failures t"
| "failures (Unlock # t) = failures t"

subsection \<open>Example devices\<close>

text \<open>
  A freshly allocated handle on a bus that never fails a write and answers the read of
  register \<open>r\<close> with \<open>regs r\<close> in every bank (a negative \<open>regs r\<close> is a failing read).
\<close>

definition chip :: "(u8 \<Rightarrow> int) \<Rightarrow> nct7904_data" where
  "chip regs =
     devm_kzalloc\<lparr>client := (\<lambda>t x. case x of Rd r \<Rightarrow> regs r | Wr r v \<Rightarrow> 0), bank_sel := - 1\<rparr>"

text \<open>A handle on a bus whose very first transaction fails with \<open>-EIO\<close>.\<close>

definition flaky :: nct7904_data where
  "flaky = devm_kzalloc\<lparr>client := (\<lambda>t x. if t = [Lock] then - 5 else 7), bank_sel := - 1\<rparr>"

text \<open>
  A bus on which the second byte of the voltage-enable word (register \<open>0x21\<close>) and the
  first read of the additional voltage control byte (register \<open>0x22\<close>) fail with
  \<open>-EIO\<close>; register \<open>0x20\<close> reads \<open>0xA6\<close> and everything else reads 0.
\<close>

definition vsen_fails :: "event list \<Rightarrow> xfer \<Rightarrow> int" where
  "vsen_fails t x =
     (if x = Rd 0x21 then - 5
      else if x = Rd 0x22 \<and> Xfer (Rd 0x22) (- 5) \<notin> set t then - 5
      else if x = Rd 0x20 then 0xA6
      else 0)"

section \<open>Basic facts about the access functions\<close>

lemmas reg_defs =
  BANK_SEL_REG_def BANK_0_def BANK_1_def BANK_2_def BANK_3_def BANK_4_def BANK_MAX_def
  FANCTL_MAX_def VT_ADC_CTRL0_REG_def VT_ADC_CTRL1_REG_def VT_ADC_CTRL2_REG_def
  FANIN_CTRL0_REG_def FANIN_CTRL1_REG_def DTS_T_CTRL0_REG_def DTS_T_CTRL1_REG_def
  VT_ADC_MD_REG_def VSEN1_HV_REG_def TEMP_CH1_HV_REG_def LTD_HV_REG_def
  FANIN1_HV_REG_def T_CPU1_HV_REG_def PFE_REG_def TSI_CTRL_REG_def
  FANCTL1_FMR_REG_def FANCTL1_OUT_REG_def ENOMEM_def EINVAL_def EOPNOTSUPP_def

lemmas access_defs =
  nct7904_read_reg_def nct7904_read_reg16_def nct7904_write_reg_def nct7904_bank_lock_def
  nct7904_bank_release_def mutex_lock_def mutex_unlock_def
  i2c_smbus_read_byte_data_def i2c_smbus_write_byte_data_def

lemmas chip_defs = chip_def devm_kzalloc_def

lemmas ex_defs = chip_defs access_defs reg_defs Let_def

lemma i2c_read_result:
  "i2c_smbus_read_byte_data d c = (ret, d') \<Longrightarrow>
     ret < 256 \<and> d' = d\<lparr>trace := trace d @ [Xfer (Rd c) ret]\<rparr>"
  by (auto simp: i2c_smbus_read_byte_data_def Let_def)

lemma i2c_write_result:
  "i2c_smbus_write_byte_data d c v = (ret, d') \<Longrightarrow>
     ret \<le> 0 \<and> d' = d\<lparr>trace := trace d @ [Xfer (Wr c v) ret]\<rparr>"
  by (auto simp: i2c_smbus_write_byte_data_def Let_def)

lemma bank_lock_result:
  "nct7904_bank_lock d bank = (ret, d') \<Longrightarrow>
     ret \<le> 0 \<and>
     (if bank_sel d = bank then ret = 0 \<and> d' = d\<lparr>trace := trace d @ [Lock]\<rparr>
      else d' = d\<lparr>trace := trace d @ [Lock, Xfer (Wr BANK_SEL_REG (ucast bank)) ret],
                  bank_sel := (if ret = 0 then bank else - 1)\<rparr>)"
  by (auto simp: nct7904_bank_lock_def mutex_lock_def Let_def split: prod.splits if_splits
      dest!: i2c_write_result)

text \<open>Two bytes put together: the first one ends up in bits 8 to 15.\<close>

lemma compose_bytes:
  fixes hi lo :: int
  assumes "0 \<le> lo" "lo < 256"
  shows "lo OR push_bit 8 hi = hi * 256 + lo"
    and "drop_bit 8 (lo OR push_bit 8 hi) = hi"
    and "take_bit 8 (lo OR push_bit 8 hi) = lo"
proof -
  have lo: "take_bit 8 lo = lo"
    using assms by (simp add: take_bit_int_eq_self)
  have "take_bit 8 lo AND push_bit 8 hi = 0"
    by (rule bit_eqI) (auto simp: bit_simps)
  then have "lo AND push_bit 8 hi = 0"
    by (simp add: lo)
  then have "lo + push_bit 8 hi = lo OR push_bit 8 hi"
    by (rule disjunctive_add_eq_or)
  then show "lo OR push_bit 8 hi = hi * 256 + lo"
    by (simp add: push_bit_eq_mult)
  have "drop_bit 8 lo = 0"
    using assms by (simp add: drop_bit_eq_div)
  then show "drop_bit 8 (lo OR push_bit 8 hi) = hi"
    by (simp add: drop_bit_push_bit)
  show "take_bit 8 (lo OR push_bit 8 hi) = lo"
    by (simp add: take_bit_push_bit lo)
qed

lemma read_reg16_result:
  assumes "nct7904_read_reg16 d bank reg = (ret, d')" and "0 \<le> ret"
  shows "\<exists>hi lo. trace d' = trace d @ [Lock]
             @ (if bank_sel d = bank then [] else [Xfer (Wr BANK_SEL_REG (ucast bank)) 0])
             @ [Xfer (Rd (ucast reg)) hi, Xfer (Rd (ucast (reg + 1))) lo, Unlock]
         \<and> 0 \<le> hi \<and> hi < 256 \<and> 0 \<le> lo \<and> lo < 256 \<and> ret = lo OR push_bit 8 hi"
  using assms
  by (auto simp: nct7904_read_reg16_def nct7904_bank_release_def mutex_unlock_def Let_def
       split: prod.splits if_splits dest!: i2c_read_result bank_lock_result)

section \<open>The composite word read\<close>

text \<open>
  Claim C1, as the code has it. A successful \<open>nct7904_read_reg16\<close> takes the lock once,
  selects the bank if the cached one differs, reads register \<open>reg\<close> and then register
  \<open>reg + 1\<close>, and releases the lock. Its result is the first byte shifted left by eight,
  or-ed with the second byte: the byte at the lower address \<open>reg\<close> is the high byte of
  the result and the byte at \<open>reg + 1\<close> the low byte (big-endian, as the comment above
  the function says).
\<close>

theorem read_reg16_big_endian:
  assumes "nct7904_read_reg16 d bank reg = (ret, d')" and "0 \<le> ret"
  shows "\<exists>hi lo.
           trace d' = trace d @ [Lock]
             @ (if bank_sel d = bank then [] else [Xfer (Wr BANK_SEL_REG (ucast bank)) 0])
             @ [Xfer (Rd (ucast reg)) hi, Xfer (Rd (ucast (reg + 1))) lo, Unlock]
         \<and> 0 \<le> hi \<and> hi < 256 \<and> 0 \<le> lo \<and> lo < 256
         \<and> ret = push_bit 8 hi OR lo \<and> ret = hi * 256 + lo
         \<and> drop_bit 8 ret = hi \<and> take_bit 8 ret = lo"
proof -
  from read_reg16_result [OF assms] obtain hi lo where
    t: "trace d' = trace d @ [Lock]
             @ (if bank_sel d = bank then [] else [Xfer (Wr BANK_SEL_REG (ucast bank)) 0])
             @ [Xfer (Rd (ucast reg)) hi, Xfer (Rd (ucast (reg + 1))) lo, Unlock]"
    and b: "0 \<le> hi" "hi < 256" "0 \<le> lo" "lo < 256"
    and r: "ret = lo OR push_bit 8 hi"
    by blast
  from b r have "ret = push_bit 8 hi OR lo" and "ret = hi * 256 + lo"
    and "drop_bit 8 ret = hi" and "take_bit 8 ret = lo"
    using compose_bytes [of lo hi] by (simp_all add: or.commute)
  with t b show ?thesis
    by blast
qed

text \<open>
  With \<open>0x12\<close> at register \<open>0x40\<close> and \<open>0x34\<close> at register \<open>0x41\<close> the word read at
  \<open>0x40\<close> is \<open>0x1234\<close>.
\<close>

theorem read_reg16_big_endian_witness:
  "fst (nct7904_read_reg16 (chip (\<lambda>r. if r = 0x40 then 0x12 else if r = 0x41 then 0x34 else 0))
          BANK_0 0x40) = 0x1234
   \<and> (\<exists>hi lo.
        trace (snd (nct7904_read_reg16
                      (chip (\<lambda>r. if r = 0x40 then 0x12 else if r = 0x41 then 0x34 else 0))
                      BANK_0 0x40))
          = [Lock, Xfer (Wr BANK_SEL_REG 0) 0, Xfer (Rd 0x40) hi, Xfer (Rd 0x41) lo, Unlock]
        \<and> (0x1234 :: int) = hi * 256 + lo \<and> drop_bit 8 (0x1234 :: int) = hi
        \<and> take_bit 8 (0x1234 :: int) = lo)"
proof -
  let ?d = "chip (\<lambda>r. if r = 0x40 then 0x12 else if r = 0x41 then 0x34 else 0)"
  have v: "fst (nct7904_read_reg16 ?d BANK_0 0x40) = 0x1234"
    by (simp add: chip_defs access_defs reg_defs Let_def)
  have p: "nct7904_read_reg16 ?d BANK_0 0x40
             = (0x1234, snd (nct7904_read_reg16 ?d BANK_0 0x40))"
    by (rule prod_eqI) (simp_all add: v)
  have s: "bank_sel ?d \<noteq> BANK_0" "trace ?d = []"
    by (simp_all add: chip_defs reg_defs)
  from read_reg16_big_endian [OF p] s v show ?thesis
    by (simp add: reg_defs)
qed

text \<open>
  The claim as the specification words it: with byte \<open>1\<close> at register \<open>0x80\<close> and byte
  \<open>0\<close> at register \<open>0x81\<close> the result would be \<open>1 | (0 << 8)\<close>. The code returns 256.
\<close>

theorem read_reg16_little_endian_counterexample:
  "trace (snd (nct7904_read_reg16 (chip (\<lambda>r. if r = 0x80 then 1 else 0)) BANK_0 0x80))
     = [Lock, Xfer (Wr 0xFF 0) 0, Xfer (Rd 0x80) 1, Xfer (Rd 0x81) 0, Unlock]
   \<and> fst (nct7904_read_reg16 (chip (\<lambda>r. if r = 0x80 then 1 else 0)) BANK_0 0x80)
       \<noteq> (1 OR push_bit 8 0)
   \<and> fst (nct7904_read_reg16 (chip (\<lambda>r. if r = 0x80 then 1 else 0)) BANK_0 0x80) = 256"
  by (simp add: chip_defs access_defs reg_defs Let_def)

section \<open>The voltage channel map\<close>

text \<open>
  Claim C3, as the code has it. The table has 21 entries, for the channels 0 to 20.
  Channel 0 is the unused placeholder; the channels 1 to 16 go to the physical indices
  0 to 15 in order; the channels 17, 18, 19 and 20 go to 18, 19, 20 and 16. Channel 20
  is the only one that resolves to index 16, and channel 21 lies outside the table.
\<close>

theorem chan_to_index_map:
  "chan_to_index c =
     (if c = 0 then Inr 0
      else if 1 \<le> c \<and> c \<le> 16 then Inr (c - 1)
      else if 17 \<le> c \<and> c \<le> 19 then Inr (c + 1)
      else if c = 20 then Inr 16
      else Inl OutOfBounds)"
proof (cases "0 \<le> c \<and> c < 21")
  case False
  then show ?thesis
    by (auto simp: chan_to_index_def nct7904_chan_to_index_def)
next
  case True
  then have "c = 0 \<or> c = 1 \<or> c = 2 \<or> c = 3 \<or> c = 4 \<or> c = 5 \<or> c = 6 \<or> c = 7 \<or> c = 8 \<or> c = 9
     \<or> c = 10 \<or> c = 11 \<or> c = 12 \<or> c = 13 \<or> c = 14 \<or> c = 15 \<or> c = 16 \<or> c = 17 \<or> c = 18
     \<or> c = 19 \<or> c = 20"
    by presburger
  then show ?thesis
    by (elim disjE) (simp_all add: chan_to_index_def nct7904_chan_to_index_def)
qed

text \<open>
  The claim as the specification words it sends channel 17 and channel 21 to index 16.
  In the table channel 17 goes to index 18 and channel 21 is not in it.
\<close>

theorem chan_to_index_counterexample:
  "chan_to_index 17 = Inr 18 \<and> chan_to_index 17 \<noteq> Inr 16
   \<and> chan_to_index 21 = Inl OutOfBounds \<and> chan_to_index 21 \<noteq> Inr 16"
  by (simp add: chan_to_index_def nct7904_chan_to_index_def)

section \<open>Bank selection\<close>

lemma bank_selects_append [simp]:
  "bank_selects (t @ u) = bank_selects t + bank_selects u"
  by (simp add: bank_selects_def)

lemma bank_selects_simps [simp]:
  "bank_selects [] = 0"
  "bank_selects (e # t) = (if is_bank_select e then 1 else 0) + bank_selects t"
  by (simp_all add: bank_selects_def)

lemma bank_lock_selects:
  assumes "nct7904_bank_lock d bank = (ret, d')"
  shows "bank_selects (trace d') = bank_selects (trace d) + (if bank_sel d = bank then 0 else 1)"
    and "bank_sel d' = (if bank_sel d = bank \<or> ret = 0 then bank else - 1)"
  using bank_lock_result [OF assms] by (auto split: if_splits)

lemma do_reg_op_after_lock:
  assumes "do_reg_op d bank op = (r, d')" and "\<not> writes_bank_sel op"
    and "nct7904_bank_lock d bank = (ret, dl)"
  shows "bank_sel d' = bank_sel dl"
    and "bank_selects (trace d') = bank_selects (trace dl)"
    and "ret \<noteq> 0 \<longrightarrow> r = ret"
  using assms
  by (cases op;
      auto simp: nct7904_read_reg_def nct7904_read_reg16_def nct7904_write_reg_def
        nct7904_bank_release_def mutex_unlock_def Let_def
        split: prod.splits if_splits dest!: i2c_read_result i2c_write_result)+

lemma do_reg_op_selects:
  assumes "do_reg_op d bank op = (r, d')" and "\<not> writes_bank_sel op"
  shows "bank_selects (trace d') = bank_selects (trace d) + (if bank_sel d = bank then 0 else 1)"
    and "bank_sel d' = bank \<or> bank_sel d' = - 1"
    and "bank_sel d = bank \<longrightarrow> bank_sel d' = bank"
proof -
  obtain ret dl where l: "nct7904_bank_lock d bank = (ret, dl)"
    by (cases "nct7904_bank_lock d bank")
  from do_reg_op_after_lock [OF assms l] bank_lock_selects [OF l]
  show "bank_selects (trace d') = bank_selects (trace d) + (if bank_sel d = bank then 0 else 1)"
    and "bank_sel d' = bank \<or> bank_sel d' = - 1"
    and "bank_sel d = bank \<longrightarrow> bank_sel d' = bank"
    by (simp_all split: if_splits)
qed

text \<open>
  Claim C5. \<open>nct7904_bank_lock\<close> issues no bus write when the cached bank is the
  requested one, and exactly one write to the bank-select register otherwise; the cache
  then holds the requested bank if the write succeeded and the unknown value \<open>-1\<close> if
  it failed. Hence two register operations in a row on one bank issue one bank-select
  transaction between them (none if the bank was cached already), and after a failed
  bank select the next operation issues a bank select again, whichever of the banks
  0 to \<open>BANK_MAX\<close> it asks for.
\<close>

theorem bank_select_caching:
  "(bank_sel d = bank \<longrightarrow>
      nct7904_bank_lock d bank = (0, d\<lparr>trace := trace d @ [Lock]\<rparr>))
   \<and> (bank_sel d \<noteq> bank \<longrightarrow>
        (\<exists>ret. ret \<le> 0 \<and>
           nct7904_bank_lock d bank =
             (ret, d\<lparr>trace := trace d @ [Lock, Xfer (Wr BANK_SEL_REG (ucast bank)) ret],
                     bank_sel := (if ret = 0 then bank else - 1)\<rparr>)))
   \<and> (\<not> writes_bank_sel op1 \<and> \<not> writes_bank_sel op2
        \<and> do_reg_op d bank op1 = (r1, d1) \<and> do_reg_op d1 bank op2 = (r2, d2)
        \<and> bank_sel d1 = bank \<longrightarrow>
          bank_selects (trace d2) = bank_selects (trace d) + (if bank_sel d = bank then 0 else 1))
   \<and> (\<not> writes_bank_sel op3 \<and> \<not> writes_bank_sel op4
        \<and> bank_sel e \<noteq> b \<and> fst (nct7904_bank_lock e b) \<noteq> 0
        \<and> do_reg_op e b op3 = (r3, e3) \<and> b' \<le> BANK_MAX
        \<and> do_reg_op e3 b' op4 = (r4, e4) \<longrightarrow>
          r3 = fst (nct7904_bank_lock e b) \<and> bank_sel e3 = - 1
          \<and> bank_selects (trace e4) = bank_selects (trace e3) + 1)"
proof -
  have p1: "bank_sel d = bank \<longrightarrow>
      nct7904_bank_lock d bank = (0, d\<lparr>trace := trace d @ [Lock]\<rparr>)"
    by (simp add: nct7904_bank_lock_def mutex_lock_def)
  have p2: "bank_sel d \<noteq> bank \<longrightarrow>
        (\<exists>ret. ret \<le> 0 \<and>
           nct7904_bank_lock d bank =
             (ret, d\<lparr>trace := trace d @ [Lock, Xfer (Wr BANK_SEL_REG (ucast bank)) ret],
                     bank_sel := (if ret = 0 then bank else - 1)\<rparr>))"
  proof
    assume n: "bank_sel d \<noteq> bank"
    obtain ret dl where l: "nct7904_bank_lock d bank = (ret, dl)"
      by (cases "nct7904_bank_lock d bank")
    from bank_lock_result [OF l] n l
    show "\<exists>ret. ret \<le> 0 \<and>
           nct7904_bank_lock d bank =
             (ret, d\<lparr>trace := trace d @ [Lock, Xfer (Wr BANK_SEL_REG (ucast bank)) ret],
                     bank_sel := (if ret = 0 then bank else - 1)\<rparr>)"
      by auto
  qed
  have p3: "\<not> writes_bank_sel op1 \<and> \<not> writes_bank_sel op2
        \<and> do_reg_op d bank op1 = (r1, d1) \<and> do_reg_op d1 bank op2 = (r2, d2)
        \<and> bank_sel d1 = bank \<longrightarrow>
          bank_selects (trace d2) = bank_selects (trace d) + (if bank_sel d = bank then 0 else 1)"
  proof
    assume a: "\<not> writes_bank_sel op1 \<and> \<not> writes_bank_sel op2
        \<and> do_reg_op d bank op1 = (r1, d1) \<and> do_reg_op d1 bank op2 = (r2, d2)
        \<and> bank_sel d1 = bank"
    then have "bank_selects (trace d1)
        = bank_selects (trace d) + (if bank_sel d = bank then 0 else 1)"
      using do_reg_op_selects(1) [of d bank op1 r1 d1] by simp
    moreover have "bank_selects (trace d2) = bank_selects (trace d1)"
      using a do_reg_op_selects(1) [of d1 bank op2 r2 d2] by simp
    ultimately show "bank_selects (trace d2)
        = bank_selects (trace d) + (if bank_sel d = bank then 0 else 1)"
      by simp
  qed
  have p4: "\<not> writes_bank_sel op3 \<and> \<not> writes_bank_sel op4
        \<and> bank_sel e \<noteq> b \<and> fst (nct7904_bank_lock e b) \<noteq> 0
        \<and> do_reg_op e b op3 = (r3, e3) \<and> b' \<le> BANK_MAX
        \<and> do_reg_op e3 b' op4 = (r4, e4) \<longrightarrow>
          r3 = fst (nct7904_bank_lock e b) \<and> bank_sel e3 = - 1
          \<and> bank_selects (trace e4) = bank_selects (trace e3) + 1"
  proof
    assume a: "\<not> writes_bank_sel op3 \<and> \<not> writes_bank_sel op4
        \<and> bank_sel e \<noteq> b \<and> fst (nct7904_bank_lock e b) \<noteq> 0
        \<and> do_reg_op e b op3 = (r3, e3) \<and> b' \<le> BANK_MAX
        \<and> do_reg_op e3 b' op4 = (r4, e4)"
    obtain rl el where l: "nct7904_bank_lock e b = (rl, el)"
      by (cases "nct7904_bank_lock e b")
    with a have rl: "rl \<noteq> 0"
      by simp
    from a l rl have "bank_sel el = - 1"
      using bank_lock_selects(2) [of e b rl el] by simp
    with a l have e3: "bank_sel e3 = - 1"
      using do_reg_op_after_lock(1) [of e b op3 r3 e3 rl el] by simp
    from a l rl have r3: "r3 = fst (nct7904_bank_lock e b)"
      using do_reg_op_after_lock(3) [of e b op3 r3 e3 rl el] by simp
    have "\<not> (- 1 :: u32) \<le> 4"
      by (simp add: word_le_nat_alt unsigned_minus_1_eq_mask mask_eq_exp_minus_1)
    then have "b' \<noteq> - 1"
      using a by (auto simp: BANK_MAX_def)
    with e3 have "bank_sel e3 \<noteq> b'"
      by simp
    then have "bank_selects (trace e4) = bank_selects (trace e3) + 1"
      using a do_reg_op_selects(1) [of e3 b' op4 r4 e4] by simp
    with e3 r3 show "r3 = fst (nct7904_bank_lock e b) \<and> bank_sel e3 = - 1
          \<and> bank_selects (trace e4) = bank_selects (trace e3) + 1"
      by simp
  qed
  from p1 p2 p3 p4 show ?thesis
    by (intro conjI)
qed

text \<open>
  With bank 3 cached, locking bank 3 writes nothing. On a fresh handle a read of bank 0
  followed by a word read of bank 0 issues one bank select. On the bus \<open>flaky\<close> the
  bank select of a write to bank 3 fails with -5, and a following read of the same bank
  3 issues the bank select again: two in the trace.
\<close>

theorem bank_select_caching_witness:
  "nct7904_bank_lock ((chip (\<lambda>r. 7))\<lparr>bank_sel := BANK_3\<rparr>) BANK_3
     = (0, (chip (\<lambda>r. 7))\<lparr>bank_sel := BANK_3\<rparr>\<lparr>trace := [Lock]\<rparr>)
   \<and> (\<exists>ret. ret \<le> 0 \<and> nct7904_bank_lock (chip (\<lambda>r. 7)) BANK_0
         = (ret, (chip (\<lambda>r. 7))\<lparr>trace := [Lock, Xfer (Wr BANK_SEL_REG 0) ret],
                   bank_sel := (if ret = 0 then BANK_0 else - 1)\<rparr>))
   \<and> bank_selects (trace (snd (do_reg_op (snd (do_reg_op (chip (\<lambda>r. 7)) BANK_0 (ReadReg 0x20)))
                                   BANK_0 (ReadReg16 0x40)))) = 1
   \<and> fst (do_reg_op flaky BANK_3 (WriteReg 0x10 0x80)) = - 5
   \<and> bank_selects (trace (snd (do_reg_op (snd (do_reg_op flaky BANK_3 (WriteReg 0x10 0x80)))
                                   BANK_3 (ReadReg 0x10)))) = 2"
proof -
  let ?c = "chip (\<lambda>r. 7)"
  let ?c3 = "?c\<lparr>bank_sel := BANK_3\<rparr>"
  let ?d1 = "snd (do_reg_op ?c BANK_0 (ReadReg 0x20))"
  let ?d2 = "snd (do_reg_op ?d1 BANK_0 (ReadReg16 0x40))"
  let ?e3 = "snd (do_reg_op flaky BANK_3 (WriteReg 0x10 0x80))"
  let ?e4 = "snd (do_reg_op ?e3 BANK_3 (ReadReg 0x10))"
  have h1: "bank_sel ?c3 = BANK_3" "trace ?c3 = []"
    by (simp_all add: ex_defs)
  have h2: "bank_sel ?c \<noteq> BANK_0" "trace ?c = []" "ucast BANK_0 = (0 :: u8)"
    by (simp_all add: ex_defs)
  have h3: "\<not> writes_bank_sel (ReadReg 0x20)" "\<not> writes_bank_sel (ReadReg16 0x40)"
    "bank_sel ?d1 = BANK_0"
    by (simp_all add: ex_defs)
  have h4: "\<not> writes_bank_sel (WriteReg 0x10 0x80)" "\<not> writes_bank_sel (ReadReg 0x10)"
    "bank_sel flaky \<noteq> BANK_3" "fst (nct7904_bank_lock flaky BANK_3) = - 5" "BANK_3 \<le> BANK_MAX"
    "bank_selects (trace ?e3) = 1"
    by (simp_all add: ex_defs flaky_def)
  from bank_select_caching [of ?c3 BANK_3] h1
  have a: "nct7904_bank_lock ?c3 BANK_3 = (0, ?c3\<lparr>trace := [Lock]\<rparr>)"
    by simp
  from bank_select_caching [of ?c BANK_0 "ReadReg 0x20" "ReadReg16 0x40"
      "fst (do_reg_op ?c BANK_0 (ReadReg 0x20))" ?d1
      "fst (do_reg_op ?d1 BANK_0 (ReadReg16 0x40))" ?d2
      "WriteReg 0x10 0x80" "ReadReg 0x10" flaky BANK_3
      "fst (do_reg_op flaky BANK_3 (WriteReg 0x10 0x80))" ?e3 BANK_3
      "fst (do_reg_op ?e3 BANK_3 (ReadReg 0x10))" ?e4] h2 h3 h4
  have b: "(\<exists>ret. ret \<le> 0 \<and> nct7904_bank_lock ?c BANK_0
         = (ret, ?c\<lparr>trace := [Lock, Xfer (Wr BANK_SEL_REG 0) ret],
                   bank_sel := (if ret = 0 then BANK_0 else - 1)\<rparr>))"
    and c: "bank_selects (trace ?d2) = 1"
    and d: "fst (do_reg_op flaky BANK_3 (WriteReg 0x10 0x80)) = - 5"
    and e: "bank_selects (trace ?e4) = 2"
    by simp_all
  from a b c d e show ?thesis
    by blast
qed

section \<open>Fan control writes\<close>

lemma ucast_of_int_32_8: "ucast (word_of_int k :: u32) = (word_of_int k :: u8)"
  by (rule bit_word_eqI) (auto simp: bit_simps)

lemma write_reg_result:
  assumes "nct7904_write_reg d bank reg v = (ret, d')"
  shows "ret \<le> 0"
    and "ret = 0 \<longrightarrow> trace d' = trace d @ [Lock]
             @ (if bank_sel d = bank then [] else [Xfer (Wr BANK_SEL_REG (ucast bank)) 0])
             @ [Xfer (Wr (ucast reg) v) 0, Unlock]"
  using assms
  by (auto simp: nct7904_write_reg_def nct7904_bank_release_def mutex_unlock_def Let_def
       split: prod.splits if_splits dest!: i2c_write_result bank_lock_result)

text \<open>
  Claim C7. For a fan control channel (0 to 3) a write of the enable attribute with a
  value other than 1 or 2 returns \<open>-EINVAL\<close> and leaves the handle, with its trace, as
  it was: no bus transaction happens. The value 2 is rejected in the same way when the
  fan mode captured for the channel is 0; otherwise the captured byte is written to the
  mode register of the channel, \<open>FANCTL1_FMR_REG + channel\<close> in bank 3. The value 1
  writes 0 to that register. A write that returns 0 has put exactly that byte on the
  bus.
\<close>

theorem write_pwm_enable:
  assumes "0 \<le> channel" and "channel < int FANCTL_MAX"
  shows "(val \<noteq> 1 \<and> val \<noteq> 2 \<longrightarrow>
            nct7904_write_pwm d hwmon_pwm_enable channel val = Inr (- EINVAL, d))
       \<and> (val = 2 \<and> fan_mode d (nat channel) = 0 \<longrightarrow>
            nct7904_write_pwm d hwmon_pwm_enable channel val = Inr (- EINVAL, d))
       \<and> (val = 2 \<and> fan_mode d (nat channel) \<noteq> 0 \<longrightarrow>
            nct7904_write_pwm d hwmon_pwm_enable channel val
              = Inr (nct7904_write_reg d BANK_3 (word_of_int (FANCTL1_FMR_REG + channel))
                       (fan_mode d (nat channel))))
       \<and> (val = 1 \<longrightarrow>
            nct7904_write_pwm d hwmon_pwm_enable channel val
              = Inr (nct7904_write_reg d BANK_3 (word_of_int (FANCTL1_FMR_REG + channel)) 0))
       \<and> (nct7904_write_pwm d hwmon_pwm_enable channel val = Inr (0, d') \<longrightarrow>
            trace d' = trace d @ [Lock]
              @ (if bank_sel d = BANK_3 then [] else [Xfer (Wr BANK_SEL_REG 3) 0])
              @ [Xfer (Wr (word_of_int channel) (if val = 2 then fan_mode d (nat channel) else 0)) 0,
                 Unlock])"
proof -
  have ch: "nat channel < FANCTL_MAX"
    using assms by simp
  have reg: "ucast (word_of_int (FANCTL1_FMR_REG + channel) :: u32) = (word_of_int channel :: u8)"
    by (simp add: FANCTL1_FMR_REG_def ucast_of_int_32_8)
  have b3: "ucast BANK_3 = (3 :: u8)"
    by (simp add: BANK_3_def)
  have p1: "val \<noteq> 1 \<and> val \<noteq> 2 \<longrightarrow>
            nct7904_write_pwm d hwmon_pwm_enable channel val = Inr (- EINVAL, d)"
    by (auto simp: nct7904_write_pwm_def)
  have p2: "val = 2 \<and> fan_mode d (nat channel) = 0 \<longrightarrow>
            nct7904_write_pwm d hwmon_pwm_enable channel val = Inr (- EINVAL, d)"
    using assms(1) ch by (simp add: nct7904_write_pwm_def)
  have p3: "val = 2 \<and> fan_mode d (nat channel) \<noteq> 0 \<longrightarrow>
            nct7904_write_pwm d hwmon_pwm_enable channel val
              = Inr (nct7904_write_reg d BANK_3 (word_of_int (FANCTL1_FMR_REG + channel))
                       (fan_mode d (nat channel)))"
    using assms(1) ch by (simp add: nct7904_write_pwm_def)
  have p4: "val = 1 \<longrightarrow>
            nct7904_write_pwm d hwmon_pwm_enable channel val
              = Inr (nct7904_write_reg d BANK_3 (word_of_int (FANCTL1_FMR_REG + channel)) 0)"
    by (simp add: nct7904_write_pwm_def)
  have p5: "nct7904_write_pwm d hwmon_pwm_enable channel val = Inr (0, d') \<longrightarrow>
            trace d' = trace d @ [Lock]
              @ (if bank_sel d = BANK_3 then [] else [Xfer (Wr BANK_SEL_REG 3) 0])
              @ [Xfer (Wr (word_of_int channel) (if val = 2 then fan_mode d (nat channel) else 0)) 0,
                 Unlock]"
  proof
    assume w: "nct7904_write_pwm d hwmon_pwm_enable channel val = Inr (0, d')"
    have "val = 1 \<or> val = 2 \<and> fan_mode d (nat channel) \<noteq> 0"
    proof (rule ccontr)
      assume "\<not> (val = 1 \<or> val = 2 \<and> fan_mode d (nat channel) \<noteq> 0)"
      with p1 p2 have "nct7904_write_pwm d hwmon_pwm_enable channel val = Inr (- EINVAL, d)"
        by blast
      with w show False
        by (simp add: EINVAL_def)
    qed
    then have "nct7904_write_reg d BANK_3 (word_of_int (FANCTL1_FMR_REG + channel))
                 (if val = 2 then fan_mode d (nat channel) else 0) = (0, d')"
      using w p3 p4 by auto
    from write_reg_result(2) [OF this] show "trace d' = trace d @ [Lock]
              @ (if bank_sel d = BANK_3 then [] else [Xfer (Wr BANK_SEL_REG 3) 0])
              @ [Xfer (Wr (word_of_int channel) (if val = 2 then fan_mode d (nat channel) else 0)) 0,
                 Unlock]"
      by (simp only: reg b3 simp_thms)
  qed
  from p1 p2 p3 p4 p5 show ?thesis
    by (intro conjI)
qed


text \<open>
  Channel 2 has the captured mode \<open>0x41\<close> and channel 1 the mode 0: the value 3 and
  automatic mode on channel 1 are rejected, automatic mode on channel 2 writes \<open>0x41\<close>
  and manual mode writes 0.
\<close>

theorem write_pwm_enable_witness:
  "nct7904_write_pwm ((chip (\<lambda>r. 0))\<lparr>fan_mode := (\<lambda>i. if i = 2 then 0x41 else 0)\<rparr>)
       hwmon_pwm_enable 2 3
     = Inr (- EINVAL, (chip (\<lambda>r. 0))\<lparr>fan_mode := (\<lambda>i. if i = 2 then 0x41 else 0)\<rparr>)
   \<and> nct7904_write_pwm ((chip (\<lambda>r. 0))\<lparr>fan_mode := (\<lambda>i. if i = 2 then 0x41 else 0)\<rparr>)
       hwmon_pwm_enable 1 2
     = Inr (- EINVAL, (chip (\<lambda>r. 0))\<lparr>fan_mode := (\<lambda>i. if i = 2 then 0x41 else 0)\<rparr>)
   \<and> map_sum id (\<lambda>(ret, d'). (ret, trace d'))
        (nct7904_write_pwm ((chip (\<lambda>r. 0))\<lparr>fan_mode := (\<lambda>i. if i = 2 then 0x41 else 0)\<rparr>)
           hwmon_pwm_enable 2 2)
     = Inr (0, [Lock, Xfer (Wr BANK_SEL_REG 3) 0, Xfer (Wr 2 0x41) 0, Unlock])
   \<and> map_sum id (\<lambda>(ret, d'). (ret, trace d'))
        (nct7904_write_pwm ((chip (\<lambda>r. 0))\<lparr>fan_mode := (\<lambda>i. if i = 2 then 0x41 else 0)\<rparr>)
           hwmon_pwm_enable 2 1)
     = Inr (0, [Lock, Xfer (Wr BANK_SEL_REG 3) 0, Xfer (Wr 2 0) 0, Unlock])"
proof -
  let ?d = "(chip (\<lambda>r. 0))\<lparr>fan_mode := (\<lambda>i. if i = 2 then 0x41 else 0)\<rparr>"
  have c: "(0 :: int) \<le> 2" "(2 :: int) < int FANCTL_MAX" "(0 :: int) \<le> 1" "(1 :: int) < int FANCTL_MAX"
    by (simp_all add: FANCTL_MAX_def)
  have s: "fan_mode ?d (nat 2) = 0x41" "fan_mode ?d (nat 1) = 0"
    "bank_sel ?d \<noteq> BANK_3" "trace ?d = []"
    by (simp_all add: ex_defs)
  obtain d2 where w2: "nct7904_write_pwm ?d hwmon_pwm_enable 2 2 = Inr (0, d2)"
    by (simp add: nct7904_write_pwm_def ex_defs)
  obtain d1 where w1: "nct7904_write_pwm ?d hwmon_pwm_enable 2 1 = Inr (0, d1)"
    by (simp add: nct7904_write_pwm_def ex_defs)
  from write_pwm_enable [OF c(1,2), of 3 ?d ?d, THEN conjunct1]
  have a: "nct7904_write_pwm ?d hwmon_pwm_enable 2 3 = Inr (- EINVAL, ?d)"
    by simp
  from write_pwm_enable [OF c(3,4), of 2 ?d ?d, THEN conjunct2, THEN conjunct1] s(2)
  have b: "nct7904_write_pwm ?d hwmon_pwm_enable 1 2 = Inr (- EINVAL, ?d)"
    by simp
  from write_pwm_enable [OF c(1,2), of 2 ?d d2, THEN conjunct2, THEN conjunct2, THEN conjunct2,
      THEN conjunct2] s w2
  have "trace d2 = [Lock, Xfer (Wr BANK_SEL_REG 3) 0, Xfer (Wr 2 0x41) 0, Unlock]"
    by simp
  with w2 have c2: "map_sum id (\<lambda>(ret, d'). (ret, trace d'))
        (nct7904_write_pwm ?d hwmon_pwm_enable 2 2)
     = Inr (0, [Lock, Xfer (Wr BANK_SEL_REG 3) 0, Xfer (Wr 2 0x41) 0, Unlock])"
    by simp
  from write_pwm_enable [OF c(1,2), of 1 ?d d1, THEN conjunct2, THEN conjunct2, THEN conjunct2,
      THEN conjunct2] s w1
  have "trace d1 = [Lock, Xfer (Wr BANK_SEL_REG 3) 0, Xfer (Wr 2 0) 0, Unlock]"
    by simp
  with w1 have c1: "map_sum id (\<lambda>(ret, d'). (ret, trace d'))
        (nct7904_write_pwm ?d hwmon_pwm_enable 2 1)
     = Inr (0, [Lock, Xfer (Wr BANK_SEL_REG 3) 0, Xfer (Wr 2 0) 0, Unlock])"
    by simp
  from a b c2 c1 show ?thesis
    by (intro conjI)
qed

section \<open>Voltage inputs\<close>

lemma in_volt_range: "0 \<le> in_volt raw \<and> in_volt raw < 2048"
proof -
  have a: "0 \<le> raw AND 0xff00" "raw AND 0xff00 \<le> 0xff00"
    by simp_all
  have "drop_bit 5 (raw AND 0xff00) \<le> 0x7f8"
    using zdiv_mono1 [OF a(2), of 32] by (simp add: drop_bit_eq_div)
  then have b: "0 \<le> drop_bit 5 (raw AND 0xff00)" "drop_bit 5 (raw AND 0xff00) < 2 ^ 11"
    by simp_all
  have c: "0 \<le> raw AND 0x7" "raw AND 0x7 < 2 ^ 11"
    by simp_all
  from OR_upper [OF b c(2)] b(1) c(1) show ?thesis
    by (simp add: in_volt_def)
qed

text \<open>
  Claim C8. For a voltage channel of the table whose word read succeeds with \<open>raw\<close>,
  the input read returns 0 and stores the magnitude
  \<open>((raw & 0xFF00) >> 5) | (raw & 0x07)\<close>, an 11-bit number, times 2 when the physical
  index of the channel is below 14 and times 6 otherwise. In particular the magnitude
  100 gives 200 mV below index 14 and 600 mV from index 14 on.
\<close>

theorem read_in_millivolts:
  assumes "chan_to_index channel = Inr index"
    and "nct7904_read_reg16 d BANK_0 (word_of_int (VSEN1_HV_REG + index * 2)) = (raw, d')"
    and "0 \<le> raw"
  shows "nct7904_read_in d hwmon_in_input channel val
           = Inr (0, (if index < 14 then in_volt raw * 2 else in_volt raw * 6), d')
         \<and> in_volt raw = drop_bit 5 (raw AND 0xFF00) OR (raw AND 0x07)
         \<and> 0 \<le> in_volt raw \<and> in_volt raw < 2 ^ 11
         \<and> (in_volt raw = 100 \<longrightarrow>
              nct7904_read_in d hwmon_in_input channel val
                = Inr (0, (if index < 14 then 200 else 600), d'))"
  using assms in_volt_range [of raw]
  by (simp add: nct7904_read_in_def Let_def in_volt_def)

text \<open>
  The raw word \<open>0x0C04\<close> has the magnitude 100. Channel 1 has the physical index 0
  (registers \<open>0x40\<close>, \<open>0x41\<close>) and reads 200 mV; channel 17 has the physical index 18
  (registers \<open>0x64\<close>, \<open>0x65\<close>) and reads 600 mV.
\<close>

theorem read_in_millivolts_witness:
  "map_sum id (\<lambda>(ret, v, d'). (ret, v))
     (nct7904_read_in (chip (\<lambda>r. if r = 0x40 then 0x0C else if r = 0x41 then 0x04 else 0))
        hwmon_in_input 1 0) = Inr (0, 200)
   \<and> map_sum id (\<lambda>(ret, v, d'). (ret, v))
     (nct7904_read_in (chip (\<lambda>r. if r = 0x64 then 0x0C else if r = 0x65 then 0x04 else 0))
        hwmon_in_input 17 0) = Inr (0, 600)"
proof -
  let ?a = "chip (\<lambda>r. if r = 0x40 then 0x0C else if r = 0x41 then 0x04 else 0)"
  let ?b = "chip (\<lambda>r. if r = 0x64 then 0x0C else if r = 0x65 then 0x04 else 0)"
  have i: "chan_to_index 1 = Inr 0" "chan_to_index 17 = Inr 18"
    by (simp_all add: chan_to_index_def nct7904_chan_to_index_def)
  obtain da where ra: "nct7904_read_reg16 ?a BANK_0 (word_of_int (VSEN1_HV_REG + 0 * 2)) = (0x0C04, da)"
    by (simp add: ex_defs)
  obtain db where rb: "nct7904_read_reg16 ?b BANK_0 (word_of_int (VSEN1_HV_REG + 18 * 2)) = (0x0C04, db)"
    by (simp add: ex_defs)
  have m: "in_volt 0x0C04 = 100" "(0 :: int) \<le> 0x0C04"
    by (simp_all add: in_volt_def)
  from read_in_millivolts [OF i(1) ra m(2), of 0, THEN conjunct2, THEN conjunct2, THEN conjunct2,
      THEN conjunct2] m(1)
  have a: "map_sum id (\<lambda>(ret, v, d'). (ret, v)) (nct7904_read_in ?a hwmon_in_input 1 0) = Inr (0, 200)"
    by simp
  from read_in_millivolts [OF i(2) rb m(2), of 0, THEN conjunct2, THEN conjunct2, THEN conjunct2,
      THEN conjunct2] m(1)
  have b: "map_sum id (\<lambda>(ret, v, d'). (ret, v)) (nct7904_read_in ?b hwmon_in_input 17 0) = Inr (0, 600)"
    by simp
  from a b show ?thesis
    by (intro conjI)
qed

section \<open>Fan inputs\<close>

lemma read_fan_cases:
  assumes "nct7904_read_reg16 d BANK_0 (word_of_int (FANIN1_HV_REG + channel * 2)) = (raw, d')"
  shows "nct7904_read_fan d hwmon_fan_input channel val =
           (if raw < 0 then Inr (raw, val, d')
            else if fan_cnt raw = 0x1fff then Inr (0, 0, d')
            else if fan_cnt raw = 0 then Inl DivideError
            else Inr (0, 1350000 div fan_cnt raw, d'))"
  using assms by (simp add: nct7904_read_fan_def Let_def)

text \<open>What the fan input read returns whenever the count is not zero.\<close>

lemma read_fan_rpm:
  assumes "nct7904_read_reg16 d BANK_0 (word_of_int (FANIN1_HV_REG + channel * 2)) = (raw, d')"
    and "0 \<le> raw" and "fan_cnt raw \<noteq> 0"
  shows "nct7904_read_fan d hwmon_fan_input channel val
           = Inr (0, (if fan_cnt raw = 0x1fff then 0 else 1350000 div fan_cnt raw), d')"
  using assms by (simp add: read_fan_cases)

text \<open>The count 1350, raw word \<open>0x2A06\<close>, reads as 1000 RPM.\<close>

lemma read_fan_1000_rpm:
  "fan_cnt 0x2A06 = 1350 \<and>
   map_sum id (\<lambda>(ret, v, d'). (ret, v))
     (nct7904_read_fan (chip (\<lambda>r. if r = 0x80 then 0x2A else if r = 0x81 then 0x06 else 0))
        hwmon_fan_input 0 0) = Inr (0, 1000)"
  by (simp add: nct7904_read_fan_def fan_cnt_def ex_defs)

text \<open>
  Claim C6 at the input where the code leaves it. The fan registers of channel 1 read
  \<open>0x00\<close> and \<open>0xE0\<close>: the word read succeeds with \<open>0x00E0\<close>, the count is 0, which is
  not the value \<open>0x1FFF\<close> that line 167 tests for, and line 170 divides by it. No RPM
  value is returned.
\<close>

theorem read_fan_zero_count:
  "fst (nct7904_read_reg16 (chip (\<lambda>r. if r = 0x83 then 0xE0 else 0)) BANK_0
          (word_of_int (FANIN1_HV_REG + 1 * 2))) = 0xE0
   \<and> fan_cnt 0xE0 = 0 \<and> fan_cnt 0xE0 \<noteq> 0x1fff
   \<and> nct7904_read_fan (chip (\<lambda>r. if r = 0x83 then 0xE0 else 0)) hwmon_fan_input 1 0
       = Inl DivideError"
  by (simp add: nct7904_read_fan_def fan_cnt_def ex_defs)

text \<open>
  Claim C9. The raw word 0 has the count 0, which is not \<open>0x1FFF\<close>, and the fan input
  read of a chip that answers 0 divides by zero. For every successful word read the
  division by zero happens exactly when the count is 0; when the count is not 0 the read
  returns 0 and stores 0 RPM for the count \<open>0x1FFF\<close> and \<open>1350000 / count\<close> otherwise. A
  failed word read returns its error before the division.
\<close>

theorem read_fan_division_guard:
  "fan_cnt 0 = 0 \<and> fan_cnt 0 \<noteq> 0x1fff
   \<and> nct7904_read_fan (chip (\<lambda>r. 0)) hwmon_fan_input 0 val = Inl DivideError
   \<and> (nct7904_read_reg16 d BANK_0 (word_of_int (FANIN1_HV_REG + channel * 2)) = (raw, d')
        \<and> 0 \<le> raw \<longrightarrow>
          (nct7904_read_fan d hwmon_fan_input channel val = Inl DivideError) = (fan_cnt raw = 0)
          \<and> (fan_cnt raw \<noteq> 0 \<longrightarrow>
               nct7904_read_fan d hwmon_fan_input channel val
                 = Inr (0, (if fan_cnt raw = 0x1fff then 0 else 1350000 div fan_cnt raw), d')))
   \<and> (nct7904_read_reg16 d BANK_0 (word_of_int (FANIN1_HV_REG + channel * 2)) = (raw, d')
        \<and> raw < 0 \<longrightarrow>
          nct7904_read_fan d hwmon_fan_input channel val = Inr (raw, val, d'))"
proof -
  have p1: "fan_cnt 0 = 0 \<and> fan_cnt 0 \<noteq> 0x1fff"
    by (simp add: fan_cnt_def)
  have p2: "nct7904_read_fan (chip (\<lambda>r. 0)) hwmon_fan_input 0 val = Inl DivideError"
    by (simp add: nct7904_read_fan_def fan_cnt_def ex_defs)
  have p3: "nct7904_read_reg16 d BANK_0 (word_of_int (FANIN1_HV_REG + channel * 2)) = (raw, d')
        \<and> 0 \<le> raw \<longrightarrow>
          (nct7904_read_fan d hwmon_fan_input channel val = Inl DivideError) = (fan_cnt raw = 0)
          \<and> (fan_cnt raw \<noteq> 0 \<longrightarrow>
               nct7904_read_fan d hwmon_fan_input channel val
                 = Inr (0, (if fan_cnt raw = 0x1fff then 0 else 1350000 div fan_cnt raw), d'))"
    by (simp add: read_fan_cases)
  have p4: "nct7904_read_reg16 d BANK_0 (word_of_int (FANIN1_HV_REG + channel * 2)) = (raw, d')
        \<and> raw < 0 \<longrightarrow>
          nct7904_read_fan d hwmon_fan_input channel val = Inr (raw, val, d')"
    by (simp add: read_fan_cases)
  from p1 p2 p3 p4 show ?thesis
    by (intro conjI) simp_all
qed

text \<open>
  Channel 2 with the count 1350 reads 1000 RPM, and with a failing first byte the read
  returns the error and leaves the value alone.
\<close>

theorem read_fan_division_guard_witness:
  "map_sum id (\<lambda>(ret, v, d'). (ret, v))
     (nct7904_read_fan (chip (\<lambda>r. if r = 0x84 then 0x2A else if r = 0x85 then 0x06 else 0))
        hwmon_fan_input 2 0) = Inr (0, 1000)
   \<and> map_sum id (\<lambda>(ret, v, d'). (ret, v))
     (nct7904_read_fan (chip (\<lambda>r. if r = 0x84 then - 5 else 0)) hwmon_fan_input 2 77)
       = Inr (- 5, 77)"
proof -
  let ?a = "chip (\<lambda>r. if r = 0x84 then 0x2A else if r = 0x85 then 0x06 else 0)"
  let ?b = "chip (\<lambda>r. if r = 0x84 then - 5 else 0)"
  obtain da where ra: "nct7904_read_reg16 ?a BANK_0 (word_of_int (FANIN1_HV_REG + 2 * 2)) = (0x2A06, da)"
    by (simp add: ex_defs)
  obtain db where rb: "nct7904_read_reg16 ?b BANK_0 (word_of_int (FANIN1_HV_REG + 2 * 2)) = (- 5, db)"
    by (simp add: ex_defs)
  have m: "fan_cnt 0x2A06 = 1350"
    by (simp add: fan_cnt_def)
  from read_fan_division_guard [of 0 ?a 2 "0x2A06" da, THEN conjunct2, THEN conjunct2, THEN conjunct2,
      THEN conjunct1] ra m
  have a: "map_sum id (\<lambda>(ret, v, d'). (ret, v)) (nct7904_read_fan ?a hwmon_fan_input 2 0) = Inr (0, 1000)"
    by simp
  from read_fan_division_guard [of 77 ?b 2 "- 5" db, THEN conjunct2, THEN conjunct2, THEN conjunct2,
      THEN conjunct2] rb
  have b: "map_sum id (\<lambda>(ret, v, d'). (ret, v)) (nct7904_read_fan ?b hwmon_fan_input 2 77) = Inr (- 5, 77)"
    by simp
  from a b show ?thesis
    by (intro conjI)
qed

section \<open>Visibility of the fan control attributes\<close>

text \<open>
  Claim C10. Whatever the handle holds and whatever the channel is, the duty attribute
  and the enable attribute of a fan control channel are visible with mode \<open>0644\<close> (420);
  no mask and no captured fan mode is looked at. The other three predicates do look at
  a mask: with the bit of the channel clear the attribute is hidden, with the bit set it
  is visible with mode \<open>0444\<close> (292).
\<close>

theorem pwm_is_visible_always:
  "nct7904_pwm_is_visible d hwmon_pwm_input channel = 420
   \<and> nct7904_pwm_is_visible d hwmon_pwm_enable channel = 420
   \<and> nct7904_pwm_is_visible d (hwmon_pwm_other a) channel = 0
   \<and> nct7904_fan_is_visible (d\<lparr>fanin_mask := 0\<rparr>) hwmon_fan_input 0 = 0
   \<and> nct7904_fan_is_visible (d\<lparr>fanin_mask := 1\<rparr>) hwmon_fan_input 0 = 292
   \<and> nct7904_in_is_visible (d\<lparr>vsen_mask := 0\<rparr>) hwmon_in_input 1 = Inr 0
   \<and> nct7904_in_is_visible (d\<lparr>vsen_mask := 1\<rparr>) hwmon_in_input 1 = Inr 292
   \<and> nct7904_temp_is_visible (d\<lparr>tcpu_mask := 0\<rparr>) hwmon_temp_input 0 = 0
   \<and> nct7904_temp_is_visible (d\<lparr>tcpu_mask := 1\<rparr>) hwmon_temp_input 0 = 292
   \<and> nct7904_temp_is_visible (d\<lparr>has_dts := 0\<rparr>) hwmon_temp_input 5 = 0
   \<and> nct7904_temp_is_visible (d\<lparr>has_dts := 1\<rparr>) hwmon_temp_input 5 = 292"
  by (simp add: nct7904_pwm_is_visible_def nct7904_fan_is_visible_def nct7904_in_is_visible_def
      nct7904_temp_is_visible_def chan_to_index_def nct7904_chan_to_index_def)

section \<open>The multi-function veto\<close>

text \<open>The four rounds of the loop of lines 533-538, written out.\<close>

lemma md_loop_unfold:
  "md_loop 0 ret m =
     (let m0 = (if (word_of_int (drop_bit 0 (ret AND 0x03)) :: u8) = 0 then m AND NOT 1 else m);
          m1 = (if (word_of_int (drop_bit 2 (ret AND 0x06)) :: u8) = 0 then m0 AND NOT 2 else m0);
          m2 = (if (word_of_int (drop_bit 4 (ret AND 0x0C)) :: u8) = 0 then m1 AND NOT 4 else m1);
          m3 = (if (word_of_int (drop_bit 6 (ret AND 0x18)) :: u8) = 0 then m2 AND NOT 8 else m2)
      in m3)"
  apply (subst md_loop.simps)
  apply (subst md_loop.simps)
  apply (subst md_loop.simps)
  apply (subst md_loop.simps)
  apply (subst md_loop.simps)
  apply (simp add: Let_def)
  done

text \<open>Whatever the multi-function byte is, the loop clears bit 2 and bit 3 of the mask.\<close>

lemma md_loop_always_clears: "md_loop 0 ret m AND 0xC = 0"
  by (simp add: md_loop_unfold Let_def and.assoc)

text \<open>
  Claim C4 at inputs where the code leaves it. Line 534 shifts the mask \<open>0x03\<close> by \<open>i\<close>
  and the masked value by \<open>i * 2\<close>, so for \<open>i = 2\<close> and \<open>i = 3\<close> the value is always 0,
  and for \<open>i = 1\<close> only bit 2 of the byte is looked at. With the byte \<open>0x30\<close> the
  sub-field of bit 2 (bits 4 and 5) is 3, and the tentative bit 2 is cleared all the
  same, also when the byte is read from the chip by the probe step; with \<open>0xC0\<close> the
  sub-field of bit 3 is 3 and bit 3 is cleared; with \<open>0x08\<close> the sub-field of bit 1 is 2
  and bit 1 is cleared.
\<close>

theorem md_loop_veto_nonzero_subfield:
  "drop_bit (2 * 2) (0x30 :: int) AND 0x03 = 3
   \<and> md_loop 0 0x30 4 = 0
   \<and> tcpu_mask (snd (probe_md ((chip (\<lambda>r. if r = 0x2E then 0x30 else 0))\<lparr>tcpu_mask := 4\<rparr>))) = 0
   \<and> drop_bit (2 * 3) (0xC0 :: int) AND 0x03 = 3
   \<and> md_loop 0 0xC0 8 = 0
   \<and> drop_bit (2 * 1) (0x08 :: int) AND 0x03 = 2
   \<and> md_loop 0 0x08 2 = 0"
  by (simp add: md_loop_unfold Let_def probe_md_def ex_defs)

section \<open>Attachment\<close>

text \<open>The four rounds of the loop of lines 568-573, written out.\<close>

lemma probe_fan_mode_unfold:
  "probe_fan_mode 0 d0 =
     (case nct7904_read_reg d0 BANK_3 (word_of_int (FANCTL1_FMR_REG + 0)) of
        (ret, d) \<Rightarrow>
          if ret < 0 then (Some ret, d)
          else
            (case nct7904_read_reg (d\<lparr>fan_mode := (fan_mode d)(0 := word_of_int ret)\<rparr>) BANK_3
                    (word_of_int (FANCTL1_FMR_REG + 1)) of
               (ret, d) \<Rightarrow>
                 if ret < 0 then (Some ret, d)
                 else
                   (case nct7904_read_reg (d\<lparr>fan_mode := (fan_mode d)(1 := word_of_int ret)\<rparr>) BANK_3
                           (word_of_int (FANCTL1_FMR_REG + 2)) of
                      (ret, d) \<Rightarrow>
                        if ret < 0 then (Some ret, d)
                        else
                          (case nct7904_read_reg (d\<lparr>fan_mode := (fan_mode d)(2 := word_of_int ret)\<rparr>)
                                  BANK_3 (word_of_int (FANCTL1_FMR_REG + 3)) of
                             (ret, d) \<Rightarrow>
                               if ret < 0 then (Some ret, d)
                               else (None, d\<lparr>fan_mode := (fan_mode d)(3 := word_of_int ret)\<rparr>)))))"
  apply (subst probe_fan_mode.simps)
  apply (subst probe_fan_mode.simps)
  apply (subst probe_fan_mode.simps)
  apply (subst probe_fan_mode.simps)
  apply (subst probe_fan_mode.simps)
  apply (simp add: FANCTL_MAX_def numeral_2_eq_2 numeral_3_eq_3 split: prod.splits)
  done

lemmas setup_defs =
  probe_setup_def probe_rest_def and_then_def probe_fanin_def probe_vsen_def
  probe_tcpu_def probe_ltd_def probe_md_def probe_peci_def probe_dts_def probe_fan_mode_unfold
  md_loop_unfold

text \<open>
  A register read adds at most one failed transaction to the trace, the one whose error
  it returns; so does every step of the attachment that returns on a negative result.
\<close>

lemma failures_append [simp]: "failures (t @ u) = failures t @ failures u"
  by (induction t rule: failures.induct) simp_all

lemma read_reg_failures:
  assumes "nct7904_read_reg d bank reg = (ret, d')"
  shows "\<exists>t. trace d' = trace d @ t \<and> failures t = (if ret < 0 then [ret] else [])"
  using assms
  by (auto simp: nct7904_read_reg_def nct7904_bank_release_def mutex_unlock_def Let_def
       split: prod.splits if_splits dest!: i2c_read_result bank_lock_result)

lemma read_reg16_failures:
  assumes "nct7904_read_reg16 d bank reg = (ret, d')"
  shows "\<exists>t. trace d' = trace d @ t \<and> failures t = (if ret < 0 then [ret] else [])"
  using assms
  by (auto simp: nct7904_read_reg16_def nct7904_bank_release_def mutex_unlock_def Let_def
       split: prod.splits if_splits dest!: i2c_read_result bank_lock_result)

lemma probe_fanin_failures:
  assumes "probe_fanin d = (r, d')"
  shows "\<exists>t. trace d' = trace d @ t \<and> failures t = (case r of Some e \<Rightarrow> [e] | None \<Rightarrow> [])"
  using assms
  by (auto simp: probe_fanin_def split: prod.splits if_splits dest!: read_reg16_failures)

lemma probe_tcpu_failures:
  assumes "probe_tcpu d = (r, d')"
  shows "\<exists>t. trace d' = trace d @ t \<and> failures t = (case r of Some e \<Rightarrow> [e] | None \<Rightarrow> [])"
  using assms
  by (auto simp: probe_tcpu_def Let_def split: prod.splits if_splits dest!: read_reg_failures)

lemma probe_ltd_failures:
  assumes "probe_ltd d = (r, d')"
  shows "\<exists>t. trace d' = trace d @ t \<and> failures t = (case r of Some e \<Rightarrow> [e] | None \<Rightarrow> [])"
  using assms
  by (auto simp: probe_ltd_def Let_def split: prod.splits if_splits dest!: read_reg_failures)

lemma probe_md_failures:
  assumes "probe_md d = (r, d')"
  shows "\<exists>t. trace d' = trace d @ t \<and> failures t = (case r of Some e \<Rightarrow> [e] | None \<Rightarrow> [])"
  using assms
  by (auto simp: probe_md_def Let_def split: prod.splits if_splits dest!: read_reg_failures)

lemma probe_peci_failures:
  assumes "probe_peci d = (r, d')"
  shows "\<exists>t. trace d' = trace d @ t \<and> failures t = (case r of Some e \<Rightarrow> [e] | None \<Rightarrow> [])"
  using assms
  by (auto simp: probe_peci_def Let_def split: prod.splits if_splits dest!: read_reg_failures)

lemma probe_dts_failures:
  assumes "probe_dts d = (r, d')"
  shows "\<exists>t. trace d' = trace d @ t \<and> failures t = (case r of Some e \<Rightarrow> [e] | None \<Rightarrow> [])"
  using assms
  by (auto simp: probe_dts_def Let_def split: prod.splits if_splits dest!: read_reg_failures)


lemma and_then_failures:
  assumes f: "\<And>d r d'. f d = (r, d') \<Longrightarrow>
      \<exists>t. trace d' = trace d @ t \<and> failures t = (case r of Some e \<Rightarrow> [e] | None \<Rightarrow> [])"
    and g: "\<And>d r d'. g d = (r, d') \<Longrightarrow>
      \<exists>t. trace d' = trace d @ t \<and> failures t = (case r of Some e \<Rightarrow> [e] | None \<Rightarrow> [])"
    and "and_then f g d = (r, d')"
  shows "\<exists>t. trace d' = trace d @ t \<and> failures t = (case r of Some e \<Rightarrow> [e] | None \<Rightarrow> [])"
proof (cases "f d")
  case (Pair rf df)
  from f [OF Pair] obtain t1 where t1: "trace df = trace d @ t1"
    "failures t1 = (case rf of Some e \<Rightarrow> [e] | None \<Rightarrow> [])"
    by blast
  show ?thesis
  proof (cases rf)
    case (Some e)
    with Pair assms(3) t1 show ?thesis
      by (auto simp: and_then_def)
  next
    case None
    with Pair assms(3) have "g df = (r, d')"
      by (simp add: and_then_def)
    from g [OF this] obtain t2 where "trace d' = trace df @ t2"
      "failures t2 = (case r of Some e \<Rightarrow> [e] | None \<Rightarrow> [])"
      by blast
    with t1 None show ?thesis
      by auto
  qed
qed

lemma probe_fan_mode_failures:
  assumes "probe_fan_mode i d = (r, d')"
  shows "\<exists>t. trace d' = trace d @ t \<and> failures t = (case r of Some e \<Rightarrow> [e] | None \<Rightarrow> [])"
  using assms
proof (induction i d arbitrary: r d' rule: probe_fan_mode.induct)
  case (1 i d0)
  show ?case
  proof (cases "i < FANCTL_MAX")
    case False
    with "1.prems" show ?thesis
      by (simp add: probe_fan_mode.simps [of i d0])
  next
    case True
    obtain ret d where rd: "nct7904_read_reg d0 BANK_3 (word_of_int (FANCTL1_FMR_REG + int i)) = (ret, d)"
      by (cases "nct7904_read_reg d0 BANK_3 (word_of_int (FANCTL1_FMR_REG + int i))")
    from read_reg_failures [OF rd] obtain t1 where t1: "trace d = trace d0 @ t1"
      "failures t1 = (if ret < 0 then [ret] else [])"
      by blast
    show ?thesis
    proof (cases "ret < 0")
      case neg: True
      with True rd "1.prems" t1 show ?thesis
        by (auto simp: probe_fan_mode.simps [of i d0])
    next
      case nonneg: False
      with True rd "1.prems"
      have rec: "probe_fan_mode (i + 1) (d\<lparr>fan_mode := (fan_mode d)(i := word_of_int ret)\<rparr>) = (r, d')"
        by (simp add: probe_fan_mode.simps [of i d0])
      from "1.IH" [OF True rd [symmetric] nonneg rec]
      obtain t2 where "trace d' = trace d @ t2"
        "failures t2 = (case r of Some e \<Rightarrow> [e] | None \<Rightarrow> [])"
        by auto
      with t1 nonneg show ?thesis
        by auto
    qed
  qed
qed

lemma probe_rest_failures:
  assumes "probe_rest d = (r, d')"
  shows "\<exists>t. trace d' = trace d @ t \<and> failures t = (case r of Some e \<Rightarrow> [e] | None \<Rightarrow> [])"
  using assms unfolding probe_rest_def
  by (elim and_then_failures [rotated 2])
     (erule probe_tcpu_failures probe_ltd_failures probe_md_failures probe_peci_failures
       probe_dts_failures probe_fan_mode_failures and_then_failures [rotated 2])+

lemmas probe_defs = nct7904_probe_def setup_defs

lemma probe_vsen_mask:
  assumes "nct7904_read_reg16 d1 BANK_0 (word_of_int VT_ADC_CTRL0_REG) = (rv, dv)"
    and "nct7904_read_reg dv BANK_0 (word_of_int VT_ADC_CTRL2_REG) = (rw, dw)"
  shows "probe_vsen d1 =
           dw\<lparr>vsen_mask :=
                 (if 0 \<le> rv then word_of_int (drop_bit 8 rv OR push_bit 8 (rv AND 0xff)) else 0)
                 OR (if 0 \<le> rw then word_of_int (push_bit 16 rw) else 0)\<rparr>"
  using assms by (simp add: probe_vsen_def Let_def)

text \<open>
  Claim C2, as the code has it. The attachment runs on a zeroed handle with the bank
  unknown. Every failed bus transaction of the FANIN step, and every failed bus
  transaction of the steps after the VSEN step (CPU_TEMP, LTD, multi-function, PECI,
  DTS, fan modes), is the value \<open>nct7904_probe\<close> returns, and no device is published.
  The two reads of the VSEN step are different: whatever they return, the step goes on,
  taking for the voltage mask the swapped word if the word read succeeded and the byte
  shifted by 16 if the byte read succeeded, and zero bits otherwise. When no transaction
  outside the VSEN step fails, the result is that of the registration. A device is
  published only when \<open>nct7904_probe\<close> returns 0.
\<close>

theorem probe_aborts_on_read_failure:
  assumes "probe_fanin (devm_kzalloc\<lparr>client := cl, bank_sel := - 1\<rparr>) = (r1, d1)"
    and "nct7904_read_reg16 d1 BANK_0 (word_of_int VT_ADC_CTRL0_REG) = (rv, dv)"
    and "nct7904_read_reg dv BANK_0 (word_of_int VT_ADC_CTRL2_REG) = (rw, dw)"
    and "probe_rest (probe_vsen d1) = (r3, d3)"
  shows "(\<forall>e \<in> set (failures (trace d1)). nct7904_probe cl True register_ret = (e, None))
       \<and> probe_vsen d1 =
           dw\<lparr>vsen_mask :=
                 (if 0 \<le> rv then word_of_int (drop_bit 8 rv OR push_bit 8 (rv AND 0xff)) else 0)
                 OR (if 0 \<le> rw then word_of_int (push_bit 16 rw) else 0)\<rparr>
       \<and> (r1 = None \<longrightarrow>
            (\<forall>e \<in> set (failures (drop (length (trace dw)) (trace d3))).
               nct7904_probe cl True register_ret = (e, None))
            \<and> (failures (drop (length (trace dw)) (trace d3)) = [] \<longrightarrow>
                 nct7904_probe cl True register_ret
                   = (if register_ret < 0 then (register_ret, None) else (0, Some d3))))
       \<and> (fst (nct7904_probe cl alloc_ok register_ret) \<noteq> 0 \<longrightarrow>
            snd (nct7904_probe cl alloc_ok register_ret) = None)"
proof -
  let ?d0 = "devm_kzalloc\<lparr>client := cl, bank_sel := - 1\<rparr>"
  from probe_fanin_failures [OF assms(1)]
  have f1: "failures (trace d1) = (case r1 of Some e \<Rightarrow> [e] | None \<Rightarrow> [])"
    by (auto simp: devm_kzalloc_def)
  have p1: "\<forall>e \<in> set (failures (trace d1)). nct7904_probe cl True register_ret = (e, None)"
  proof (cases r1)
    case None
    with f1 show ?thesis
      by simp
  next
    case (Some e)
    with assms(1) have "nct7904_probe cl True register_ret = (e, None)"
      by (simp add: nct7904_probe_def probe_setup_def and_then_def)
    with f1 Some show ?thesis
      by simp
  qed
  note p2 = probe_vsen_mask [OF assms(2,3)]
  have tv: "trace (probe_vsen d1) = trace dw"
    by (simp add: p2)
  from probe_rest_failures [OF assms(4)] tv
  have f3: "failures (drop (length (trace dw)) (trace d3))
              = (case r3 of Some e \<Rightarrow> [e] | None \<Rightarrow> [])"
    by auto
  have p3: "r1 = None \<longrightarrow>
            (\<forall>e \<in> set (failures (drop (length (trace dw)) (trace d3))).
               nct7904_probe cl True register_ret = (e, None))
            \<and> (failures (drop (length (trace dw)) (trace d3)) = [] \<longrightarrow>
                 nct7904_probe cl True register_ret
                   = (if register_ret < 0 then (register_ret, None) else (0, Some d3)))"
  proof
    assume "r1 = None"
    with assms(1,4) have s: "probe_setup ?d0 = (r3, d3)"
      by (simp add: probe_setup_def and_then_def)
    show "(\<forall>e \<in> set (failures (drop (length (trace dw)) (trace d3))).
               nct7904_probe cl True register_ret = (e, None))
            \<and> (failures (drop (length (trace dw)) (trace d3)) = [] \<longrightarrow>
                 nct7904_probe cl True register_ret
                   = (if register_ret < 0 then (register_ret, None) else (0, Some d3)))"
      using s f3 by (cases r3) (simp_all add: nct7904_probe_def)
  qed
  have p4: "fst (nct7904_probe cl alloc_ok register_ret) \<noteq> 0 \<longrightarrow>
            snd (nct7904_probe cl alloc_ok register_ret) = None"
    by (simp add: nct7904_probe_def split: prod.splits option.splits)
  from p1 p2 p3 p4 show ?thesis
    by (intro conjI)
qed

text \<open>
  Three buses: one where the first bank select fails with -6, one where register
  \<open>0x20\<close> cannot be read (the VSEN step goes on, the CPU_TEMP step returns -5), and one
  where nothing fails, with a registration that succeeds and one that fails with -16.
\<close>

theorem probe_aborts_on_read_failure_witness:
  "nct7904_probe (\<lambda>t x. if x = Wr 0xFF 0 then - 6 else 0) True 0 = (- 6, None)
   \<and> nct7904_probe (\<lambda>t x. if x = Rd 0x20 then - 5 else 0) True 0 = (- 5, None)
   \<and> fst (nct7904_probe (\<lambda>t x. 0) True 0) = 0
   \<and> snd (nct7904_probe (\<lambda>t x. 0) True 0) \<noteq> None
   \<and> nct7904_probe (\<lambda>t x. 0) True (- 16) = (- 16, None)"
proof -
  let ?A = "\<lambda>(t :: event list) (x :: xfer). if x = Wr 0xFF 0 then - 6 else (0 :: int)"
  let ?B = "\<lambda>(t :: event list) (x :: xfer). if x = Rd 0x20 then - 5 else (0 :: int)"
  let ?C = "\<lambda>(t :: event list) (x :: xfer). (0 :: int)"
  let ?d1 = "\<lambda>cl. snd (probe_fanin (devm_kzalloc\<lparr>client := cl, bank_sel := - 1\<rparr>))"
  let ?dv = "\<lambda>cl. snd (nct7904_read_reg16 (?d1 cl) BANK_0 (word_of_int VT_ADC_CTRL0_REG))"
  let ?dw = "\<lambda>cl. snd (nct7904_read_reg (?dv cl) BANK_0 (word_of_int VT_ADC_CTRL2_REG))"
  let ?d3 = "\<lambda>cl. snd (probe_rest (probe_vsen (?d1 cl)))"
  note inst = probe_aborts_on_read_failure [OF prod.collapse [symmetric] prod.collapse [symmetric]
      prod.collapse [symmetric] prod.collapse [symmetric]]
  have fa: "failures (trace (?d1 ?A)) = [- 6]"
    by (simp add: setup_defs ex_defs)
  from inst [of ?A 0, THEN conjunct1] fa
  have a: "nct7904_probe ?A True 0 = (- 6, None)"
    by simp
  have fb: "fst (probe_fanin (devm_kzalloc\<lparr>client := ?B, bank_sel := - 1\<rparr>)) = None"
    "failures (drop (length (trace (?dw ?B))) (trace (?d3 ?B))) = [- 5]"
    by (simp_all add: setup_defs ex_defs)
  from inst [of ?B 0, THEN conjunct2, THEN conjunct2, THEN conjunct1] fb
  have b: "nct7904_probe ?B True 0 = (- 5, None)"
    by simp
  have fc: "fst (probe_fanin (devm_kzalloc\<lparr>client := ?C, bank_sel := - 1\<rparr>)) = None"
    "failures (drop (length (trace (?dw ?C))) (trace (?d3 ?C))) = []"
    by (simp_all add: setup_defs ex_defs)
  from inst [of ?C 0, THEN conjunct2, THEN conjunct2, THEN conjunct1] fc
  have c: "fst (nct7904_probe ?C True 0) = 0" "snd (nct7904_probe ?C True 0) \<noteq> None"
    by simp_all
  from inst [of ?C "- 16", THEN conjunct2, THEN conjunct2, THEN conjunct1] fc
  have d: "nct7904_probe ?C True (- 16) = (- 16, None)"
    by simp
  from a b c d show ?thesis
    by (intro conjI)
qed

text \<open>
  The claim as the specification words it has the attachment abort when the
  voltage-enable word read or the additional control-byte read fails. On the bus
  \<open>vsen_fails\<close> both fail; the attachment carries on through all later steps, returns
  0 and publishes the device with an empty voltage mask.
\<close>

theorem probe_ignores_vsen_failure_counterexample:
  "fst (nct7904_probe vsen_fails True 0) = 0
   \<and> map_option vsen_mask (snd (nct7904_probe vsen_fails True 0)) = Some 0
   \<and> map_option trace (snd (nct7904_probe vsen_fails True 0)) =
       Some [Lock, Xfer (Wr 0xFF 0) 0, Xfer (Rd 0x24) 0, Xfer (Rd 0x25) 0, Unlock,
             Lock, Xfer (Rd 0x20) 0xA6, Xfer (Rd 0x21) (- 5), Unlock,
             Lock, Xfer (Rd 0x22) (- 5), Unlock,
             Lock, Xfer (Rd 0x20) 0xA6, Unlock,
             Lock, Xfer (Rd 0x22) 0, Unlock,
             Lock, Xfer (Rd 0x2E) 0, Unlock,
             Lock, Xfer (Wr 0xFF 2) 0, Xfer (Rd 0x00) 0, Unlock,
             Lock, Xfer (Rd 0x50) 0, Unlock,
             Lock, Xfer (Wr 0xFF 3) 0, Xfer (Rd 0x00) 0, Unlock,
             Lock, Xfer (Rd 0x01) 0, Unlock,
             Lock, Xfer (Rd 0x02) 0, Unlock,
             Lock, Xfer (Rd 0x03) 0, Unlock]"
  by (simp add: probe_defs vsen_fails_def ex_defs)

end
